theory Spec2Isabelle
  imports Complex_Main "HOL-Library.Word"
begin

section \<open>The solar system simulation of \<^verbatim>\<open>solar_system.cpp\<close>\<close>

text \<open>
  The C++ works on \<^verbatim>\<open>double\<close>. The model leaves the arithmetic open: the value type
  \<open>'a\<close> carries only the syntactic operations \<open>0\<close>, \<open>+\<close>, \<open>-\<close>, \<open>*\<close>, \<open>/\<close> and
  \<open>\<bar>_\<bar>\<close>, with no algebraic law assumed (floating-point addition is not associative),
  and the expressions keep the association of the C++ expressions. What the language
  and the library supply beyond these operations is a parameter record: the constants
  \<^verbatim>\<open>GRAV\<close> and \<^verbatim>\<open>AU\<close>, the literal \<^verbatim>\<open>0.5\<close>, \<^verbatim>\<open>std::sqrt\<close> and the conversion
  \<^verbatim>\<open>static_cast<int>\<close>, which is undefined in C++ when the truncated value is not an
  \<^verbatim>\<open>int\<close> (\<open>None\<close> here). A theorem of the polymorphic model holds for every arithmetic;
  the theory instantiates it with the reals and with a type of IEEE special values.
\<close>

record 'a arith =
  GRAV :: 'a
  AU :: 'a
  half :: 'a
  fsqrt :: "'a \<Rightarrow> 'a"
  to_int :: "'a \<Rightarrow> int option"

subsection \<open>\<^verbatim>\<open>struct CelestialBody\<close>\<close>

record 'a CelestialBody =
  name :: string
  body_id :: int
  parent_id :: int
  mass :: 'a
  radius :: 'a
  obliquity :: 'a
  rotation_period :: 'a
  x :: 'a
  y :: 'a
  z :: 'a
  vx :: 'a
  vy :: 'a
  vz :: 'a
  ax :: 'a
  ay :: 'a
  az :: 'a
  ax_old :: 'a
  ay_old :: 'a
  az_old :: 'a
  semi_major_axis :: 'a
  eccentricity :: 'a
  inclination :: 'a
  orbital_period :: 'a
  trajectory_x :: "'a list"
  trajectory_y :: "'a list"
  trajectory_z :: "'a list"
  trajectory_max_points :: int

text \<open>
  \<^verbatim>\<open>static_cast<size_t>(trajectory_max_points)\<close>: an \<^verbatim>\<open>int\<close> converted to the 64-bit
  unsigned \<^verbatim>\<open>size_t\<close>, so a negative value becomes a huge positive one.
\<close>

definition size_t_of_int :: "int \<Rightarrow> nat" where
  "size_t_of_int c = nat (c mod 2 ^ 64)"

text \<open>
  \<^verbatim>\<open>add_trajectory_point\<close>: \<^verbatim>\<open>push_back\<close> on the three vectors, then one
  \<^verbatim>\<open>erase(begin())\<close> on each when the length of \<^verbatim>\<open>trajectory_x\<close> exceeds the capacity.
  After the three pushes no vector is empty, so \<open>tl\<close> is the erase.
\<close>

definition add_trajectory_point :: "'a CelestialBody \<Rightarrow> 'a CelestialBody" where
  "add_trajectory_point b =
     (let b1 = b\<lparr>trajectory_x := trajectory_x b @ [x b],
                 trajectory_y := trajectory_y b @ [y b],
                 trajectory_z := trajectory_z b @ [z b]\<rparr>
      in if length (trajectory_x b1) > size_t_of_int (trajectory_max_points b1)
         then b1\<lparr>trajectory_x := tl (trajectory_x b1),
                 trajectory_y := tl (trajectory_y b1),
                 trajectory_z := tl (trajectory_z b1)\<rparr>
         else b1)"

subsection \<open>\<^verbatim>\<open>class SolarSystem\<close>\<close>

text \<open>
  \<^verbatim>\<open>step_count\<close> is a C++ \<^verbatim>\<open>int\<close>; the model takes the 32-bit two's complement word,
  whose \<open>+ 1\<close> is what \<^verbatim>\<open>step_count++\<close> computes on the machine.
\<close>

record 'a SolarSystem =
  bodies :: "'a CelestialBody list"
  simulation_time :: 'a
  total_energy :: 'a
  initial_energy :: 'a
  step_count :: "32 word"

text \<open>
  One iteration of the loop over \<open>j\<close> in \<^verbatim>\<open>compute_acceleration(i)\<close>: it reads the
  positions of bodies \<open>i\<close> and \<open>j\<close> and the mass of \<open>j\<close>, and adds to the acceleration
  of body \<open>i\<close> in place. There is no test on \<open>r\<close>.
\<close>

definition accumulate ::
  "'a::{zero,plus,minus,times,inverse} arith \<Rightarrow> nat \<Rightarrow> 'a CelestialBody list \<Rightarrow> nat
     \<Rightarrow> 'a CelestialBody list" where
  "accumulate P i bs j =
     (if j = i then bs
      else
        let dx = x (bs ! j) - x (bs ! i);
            dy = y (bs ! j) - y (bs ! i);
            dz = z (bs ! j) - z (bs ! i);
            r_sq = dx * dx + dy * dy + dz * dz;
            r = fsqrt P r_sq;
            r_cubed = r_sq * r;
            factor = GRAV P * mass (bs ! j) / r_cubed
        in bs[i := (bs ! i)\<lparr>ax := ax (bs ! i) + factor * dx,
                             ay := ay (bs ! i) + factor * dy,
                             az := az (bs ! i) + factor * dz\<rparr>])"

text \<open>
  \<^verbatim>\<open>compute_acceleration(i)\<close> is private and only called with \<open>i < bodies.size()\<close>; the
  loop runs \<open>j\<close> over \<open>0, 1, ..., bodies.size() - 1\<close>.
\<close>

definition compute_acceleration ::
  "'a::{zero,plus,minus,times,inverse} arith \<Rightarrow> nat \<Rightarrow> 'a CelestialBody list
     \<Rightarrow> 'a CelestialBody list" where
  "compute_acceleration P i bs =
     foldl (accumulate P i) (bs[i := (bs ! i)\<lparr>ax := 0, ay := 0, az := 0\<rparr>])
       [0..<length bs]"

definition compute_all_accelerations ::
  "'a::{zero,plus,minus,times,inverse} arith \<Rightarrow> 'a CelestialBody list
     \<Rightarrow> 'a CelestialBody list" where
  "compute_all_accelerations P bs =
     foldl (\<lambda>cur i. compute_acceleration P i cur) bs [0..<length bs]"

text \<open>The three range-for loops of \<^verbatim>\<open>step\<close>, each touching only its own body.\<close>

definition store_old :: "'a CelestialBody \<Rightarrow> 'a CelestialBody" where
  "store_old b = b\<lparr>ax_old := ax b, ay_old := ay b, az_old := az b\<rparr>"

definition update_position ::
  "'a::{plus,times} arith \<Rightarrow> 'a \<Rightarrow> 'a CelestialBody \<Rightarrow> 'a CelestialBody" where
  "update_position P dt b =
     b\<lparr>x := x b + (vx b * dt + half P * ax b * dt * dt),
       y := y b + (vy b * dt + half P * ay b * dt * dt),
       z := z b + (vz b * dt + half P * az b * dt * dt)\<rparr>"

definition update_velocity ::
  "'a::{plus,times} arith \<Rightarrow> 'a \<Rightarrow> 'a CelestialBody \<Rightarrow> 'a CelestialBody" where
  "update_velocity P dt b =
     b\<lparr>vx := vx b + half P * (ax_old b + ax b) * dt,
       vy := vy b + half P * (ay_old b + ay b) * dt,
       vz := vz b + half P * (az_old b + az b) * dt\<rparr>"

definition step ::
  "'a::{zero,plus,minus,times,inverse} arith \<Rightarrow> 'a \<Rightarrow> 'a SolarSystem \<Rightarrow> 'a SolarSystem" where
  "step P dt s =
     (let bs1 = map store_old (bodies s);
          bs2 = map (update_position P dt) bs1;
          bs3 = compute_all_accelerations P bs2;
          bs4 = map (update_velocity P dt) bs3
      in s\<lparr>bodies := bs4,
           simulation_time := simulation_time s + dt,
           step_count := step_count s + 1\<rparr>)"

text \<open>
  \<^verbatim>\<open>calculate_total_energy\<close>: the outer loop over \<open>i\<close> adds to \<^verbatim>\<open>kinetic\<close> and runs the
  inner loop over \<open>j = i + 1, ...\<close>, which subtracts from \<^verbatim>\<open>potential\<close>. It writes no
  member of the object.
\<close>

definition pair_potential ::
  "'a::{plus,minus,times,inverse} arith \<Rightarrow> 'a CelestialBody list \<Rightarrow> nat \<Rightarrow> nat \<Rightarrow> 'a" where
  "pair_potential P bs i j =
     (let dx = x (bs ! j) - x (bs ! i);
          dy = y (bs ! j) - y (bs ! i);
          dz = z (bs ! j) - z (bs ! i);
          r = fsqrt P (dx * dx + dy * dy + dz * dz)
      in GRAV P * mass (bs ! i) * mass (bs ! j) / r)"

definition kinetic_term :: "'a::{plus,times} arith \<Rightarrow> 'a CelestialBody \<Rightarrow> 'a" where
  "kinetic_term P b =
     (let v_sq = vx b * vx b + vy b * vy b + vz b * vz b
      in half P * mass b * v_sq)"

definition energy_loop ::
  "'a::{zero,plus,minus,times,inverse} arith \<Rightarrow> 'a CelestialBody list \<Rightarrow> 'a \<times> 'a" where
  "energy_loop P bs =
     foldl (\<lambda>(kinetic, potential) i.
              (kinetic + kinetic_term P (bs ! i),
               foldl (\<lambda>pot j. pot - pair_potential P bs i j) potential
                 [i + 1..<length bs]))
       (0, 0) [0..<length bs]"

definition calculate_total_energy ::
  "'a::{zero,plus,minus,times,inverse} arith \<Rightarrow> 'a CelestialBody list \<Rightarrow> 'a" where
  "calculate_total_energy P bs = (case energy_loop P bs of (kinetic, potential) \<Rightarrow> kinetic + potential)"

text \<open>
  \<^verbatim>\<open>simulate\<close>: \<^verbatim>\<open>steps = static_cast<int>(duration / dt)\<close>, then the loop
  \<^verbatim>\<open>for (int i = 0; i < steps; i++)\<close>, which does not run when \<open>steps \<le> 0\<close>. The stride
  10 is a literal of the source.
\<close>

definition record_trajectories :: "'a SolarSystem \<Rightarrow> 'a SolarSystem" where
  "record_trajectories s = s\<lparr>bodies := map add_trajectory_point (bodies s)\<rparr>"

definition simulate_iteration ::
  "'a::{zero,plus,minus,times,inverse} arith \<Rightarrow> 'a \<Rightarrow> 'a SolarSystem \<Rightarrow> nat \<Rightarrow> 'a SolarSystem" where
  "simulate_iteration P dt s i =
     (let s1 = step P dt s
      in if i mod 10 = 0 then record_trajectories s1 else s1)"

definition simulate_loop ::
  "'a::{zero,plus,minus,times,inverse} arith \<Rightarrow> 'a \<Rightarrow> nat \<Rightarrow> 'a SolarSystem \<Rightarrow> 'a SolarSystem" where
  "simulate_loop P dt n s = foldl (simulate_iteration P dt) s [0..<n]"

definition simulate ::
  "'a::{zero,plus,minus,times,inverse} arith \<Rightarrow> 'a \<Rightarrow> 'a \<Rightarrow> 'a SolarSystem
     \<Rightarrow> 'a SolarSystem option" where
  "simulate P duration dt s =
     (case to_int P (duration / dt) of
        None \<Rightarrow> None
      | Some steps \<Rightarrow>
          (let s1 = simulate_loop P dt (nat steps) s
           in Some (s1\<lparr>total_energy := calculate_total_energy P (bodies s1)\<rparr>)))"

text \<open>
  \<^verbatim>\<open>init_real_solar_system\<close> fills \<^verbatim>\<open>bodies\<close> with seventeen hand-entered bodies and
  then seeds the accelerations and the energies. The table of bodies is the parameter
  \<open>table\<close> here; what follows the last \<^verbatim>\<open>push_back\<close> is modelled as written.
\<close>

definition init_real_solar_system ::
  "'a::{zero,plus,minus,times,inverse} arith \<Rightarrow> 'a CelestialBody list \<Rightarrow> 'a SolarSystem" where
  "init_real_solar_system P table =
     (let bs = map store_old (compute_all_accelerations P table);
          e = calculate_total_energy P bs
      in \<lparr>bodies = bs, simulation_time = 0, total_energy = e, initial_energy = e,
          step_count = 0\<rparr>)"

subsection \<open>The query surface\<close>

definition get_positions :: "'a SolarSystem \<Rightarrow> 'a list" where
  "get_positions s = concat (map (\<lambda>b. [x b, y b, z b]) (bodies s))"

definition get_velocities :: "'a SolarSystem \<Rightarrow> 'a list" where
  "get_velocities s = concat (map (\<lambda>b. [vx b, vy b, vz b]) (bodies s))"

text \<open>
  \<^verbatim>\<open>get_trajectory(int body_index)\<close>: the guard returns the empty vector; otherwise the
  loop runs \<open>i\<close> over the length of \<^verbatim>\<open>trajectory_x\<close> and reads the three vectors at
  \<open>i\<close>; the three vectors are pushed and erased together and have one length in
  every state the program reaches.
\<close>

definition trajectory_au :: "'a::inverse arith \<Rightarrow> 'a CelestialBody \<Rightarrow> 'a list" where
  "trajectory_au P b =
     concat (map (\<lambda>i. [trajectory_x b ! i / AU P, trajectory_y b ! i / AU P,
                        trajectory_z b ! i / AU P])
               [0..<length (trajectory_x b)])"

definition get_trajectory :: "'a::inverse arith \<Rightarrow> 'a SolarSystem \<Rightarrow> int \<Rightarrow> 'a list" where
  "get_trajectory P s body_index =
     (if body_index < 0 \<or> body_index \<ge> int (length (bodies s)) then []
      else trajectory_au P (bodies s ! nat body_index))"

definition get_step_count :: "'a SolarSystem \<Rightarrow> int" where
  "get_step_count s = sint (step_count s)"

definition get_simulation_time :: "'a SolarSystem \<Rightarrow> 'a" where
  "get_simulation_time s = simulation_time s"

definition get_total_energy :: "'a SolarSystem \<Rightarrow> 'a" where
  "get_total_energy s = total_energy s"

definition get_energy_error :: "'a::{minus,inverse,abs} SolarSystem \<Rightarrow> 'a" where
  "get_energy_error s = \<bar>(total_energy s - initial_energy s) / initial_energy s\<bar>"

subsection \<open>The default constructors\<close>

definition CelestialBody0 :: "'a::zero CelestialBody" where
  "CelestialBody0 =
     \<lparr>name = '''', body_id = 0, parent_id = - 1, mass = 0, radius = 0, obliquity = 0,
      rotation_period = 0, x = 0, y = 0, z = 0, vx = 0, vy = 0, vz = 0,
      ax = 0, ay = 0, az = 0, ax_old = 0, ay_old = 0, az_old = 0,
      semi_major_axis = 0, eccentricity = 0, inclination = 0, orbital_period = 0,
      trajectory_x = [], trajectory_y = [], trajectory_z = [],
      trajectory_max_points = 1000\<rparr>"

definition SolarSystem0 :: "'a::zero SolarSystem" where
  "SolarSystem0 =
     \<lparr>bodies = [], simulation_time = 0, total_energy = 0, initial_energy = 0,
      step_count = 0\<rparr>"

section \<open>The specification's notions\<close>

text \<open>
  The Force Evaluator's contract, in the specification's words: the contribution of body
  \<open>j\<close> to the acceleration of body \<open>i\<close> is \<open>G * mass(j) / r^3 * (position(j) - position(i))\<close>,
  and the contributions of the other bodies are summed in ascending body index, starting
  from zero: \<open>foldl (+) 0 [c1, c2, c3] = ((0 + c1) + c2) + c3\<close>.
\<close>

definition others :: "nat \<Rightarrow> nat \<Rightarrow> nat list" where
  "others i n = filter (\<lambda>j. j \<noteq> i) [0..<n]"

definition contribution ::
  "'a::{plus,minus,times,inverse} arith \<Rightarrow> 'a CelestialBody list \<Rightarrow> nat \<Rightarrow> nat
     \<Rightarrow> 'a \<times> 'a \<times> 'a" where
  "contribution P bs i j =
     (let dx = x (bs ! j) - x (bs ! i);
          dy = y (bs ! j) - y (bs ! i);
          dz = z (bs ! j) - z (bs ! i);
          r_sq = dx * dx + dy * dy + dz * dz;
          r = fsqrt P r_sq;
          factor = GRAV P * mass (bs ! j) / (r_sq * r)
      in (factor * dx, factor * dy, factor * dz))"

definition net_acceleration ::
  "'a::{zero,plus,minus,times,inverse} arith \<Rightarrow> 'a CelestialBody list \<Rightarrow> nat
     \<Rightarrow> 'a \<times> 'a \<times> 'a" where
  "net_acceleration P bs i =
     (foldl (+) 0 (map (\<lambda>j. fst (contribution P bs i j)) (others i (length bs))),
      foldl (+) 0 (map (\<lambda>j. fst (snd (contribution P bs i j))) (others i (length bs))),
      foldl (+) 0 (map (\<lambda>j. snd (snd (contribution P bs i j))) (others i (length bs))))"

text \<open>What the force evaluator reads of a body, and the write it makes.\<close>

definition point_mass :: "'a CelestialBody \<Rightarrow> 'a \<times> 'a \<times> 'a \<times> 'a" where
  "point_mass b = (x b, y b, z b, mass b)"

definition set_acc :: "'a \<times> 'a \<times> 'a \<Rightarrow> 'a CelestialBody \<Rightarrow> 'a CelestialBody" where
  "set_acc a b = b\<lparr>ax := fst a, ay := fst (snd a), az := snd (snd a)\<rparr>"

text \<open>
  The distance \<open>r(i, j)\<close> of the energy formula, and the pairs \<open>(i, j)\<close> with \<open>i < j\<close> in
  the order in which the two nested loops of \<^verbatim>\<open>calculate_total_energy\<close> visit them.
\<close>

definition separation ::
  "'a::{plus,minus,times} arith \<Rightarrow> 'a CelestialBody \<Rightarrow> 'a CelestialBody \<Rightarrow> 'a" where
  "separation P b c =
     fsqrt P ((x c - x b) * (x c - x b) + (y c - y b) * (y c - y b) + (z c - z b) * (z c - z b))"

definition upper_pairs :: "nat \<Rightarrow> (nat \<times> nat) list" where
  "upper_pairs n = concat (map (\<lambda>i. map (Pair i) [i + 1..<n]) [0..<n])"

section \<open>Two arithmetics\<close>

subsection \<open>Exact real arithmetic\<close>

text \<open>
  \<^verbatim>\<open>static_cast<int>\<close> truncates toward zero and is defined only when the truncated
  value is an \<^verbatim>\<open>int\<close>.
\<close>

definition real_to_int :: "real \<Rightarrow> int option" where
  "real_to_int v =
     (let t = (if v \<ge> 0 then \<lfloor>v\<rfloor> else - \<lfloor>- v\<rfloor>)
      in if - (2 ^ 31) \<le> t \<and> t < 2 ^ 31 then Some t else None)"

definition real_arith :: "real arith" where
  "real_arith = \<lparr>GRAV = 667430 / 10 ^ 16, AU = 149597870700, half = 1 / 2,
                  fsqrt = sqrt, to_int = real_to_int\<rparr>"

definition heavy :: "real CelestialBody" where
  "heavy = CelestialBody0\<lparr>name := ''A'', mass := 2, trajectory_max_points := 2\<rparr>"

definition light :: "real CelestialBody" where
  "light = CelestialBody0\<lparr>name := ''B'', body_id := 31, mass := 1, x := 3, y := 4, vy := 1,
     trajectory_max_points := 2\<rparr>"

definition two_bodies :: "real SolarSystem" where
  "two_bodies = SolarSystem0\<lparr>bodies := [heavy, light]\<rparr>"

subsection \<open>The special values of IEEE 754\<close>

text \<open>
  A \<^verbatim>\<open>double\<close> is a finite number, an infinity or NaN. The operations follow IEEE 754 on
  the special values: a nonzero finite number divided by zero is an infinity; \<open>0 / 0\<close>,
  the difference of two equal infinities and the product of an infinity and zero are NaN;
  NaN propagates. On finite numbers they are exact: rounding, overflow and the sign of
  zero are left out.
\<close>

datatype double = Finite real | PlusInf | MinusInf | NaN

fun dneg :: "double \<Rightarrow> double" where
  "dneg (Finite a) = Finite (- a)"
| "dneg PlusInf = MinusInf"
| "dneg MinusInf = PlusInf"
| "dneg NaN = NaN"

fun dadd :: "double \<Rightarrow> double \<Rightarrow> double" where
  "dadd NaN _ = NaN"
| "dadd _ NaN = NaN"
| "dadd (Finite a) (Finite b) = Finite (a + b)"
| "dadd PlusInf MinusInf = NaN"
| "dadd MinusInf PlusInf = NaN"
| "dadd PlusInf _ = PlusInf"
| "dadd MinusInf _ = MinusInf"
| "dadd (Finite a) d = d"

definition signed_inf :: "real \<Rightarrow> double" where
  "signed_inf a = (if a = 0 then NaN else if a > 0 then PlusInf else MinusInf)"

fun dmul :: "double \<Rightarrow> double \<Rightarrow> double" where
  "dmul NaN _ = NaN"
| "dmul _ NaN = NaN"
| "dmul (Finite a) (Finite b) = Finite (a * b)"
| "dmul (Finite a) PlusInf = signed_inf a"
| "dmul (Finite a) MinusInf = signed_inf (- a)"
| "dmul PlusInf (Finite b) = signed_inf b"
| "dmul MinusInf (Finite b) = signed_inf (- b)"
| "dmul PlusInf PlusInf = PlusInf"
| "dmul MinusInf MinusInf = PlusInf"
| "dmul PlusInf MinusInf = MinusInf"
| "dmul MinusInf PlusInf = MinusInf"

fun ddiv :: "double \<Rightarrow> double \<Rightarrow> double" where
  "ddiv NaN _ = NaN"
| "ddiv _ NaN = NaN"
| "ddiv (Finite a) (Finite b) = (if b = 0 then signed_inf a else Finite (a / b))"
| "ddiv (Finite a) _ = Finite 0"
| "ddiv PlusInf (Finite b) = (if b \<ge> 0 then PlusInf else MinusInf)"
| "ddiv MinusInf (Finite b) = (if b \<ge> 0 then MinusInf else PlusInf)"
| "ddiv _ _ = NaN"

fun dsqrt :: "double \<Rightarrow> double" where
  "dsqrt (Finite a) = (if a < 0 then NaN else Finite (sqrt a))"
| "dsqrt PlusInf = PlusInf"
| "dsqrt _ = NaN"

fun dabs :: "double \<Rightarrow> double" where
  "dabs (Finite a) = Finite \<bar>a\<bar>"
| "dabs NaN = NaN"
| "dabs _ = PlusInf"

fun double_to_int :: "double \<Rightarrow> int option" where
  "double_to_int (Finite a) = real_to_int a"
| "double_to_int _ = None"

instantiation double :: "{zero,plus,minus,uminus,times,inverse,abs}"
begin

definition zero_double :: double where "zero_double = Finite 0"
definition plus_double :: "double \<Rightarrow> double \<Rightarrow> double" where "plus_double = dadd"
definition uminus_double :: "double \<Rightarrow> double" where "uminus_double = dneg"
definition minus_double :: "double \<Rightarrow> double \<Rightarrow> double" where
  "minus_double a b = dadd a (dneg b)"
definition times_double :: "double \<Rightarrow> double \<Rightarrow> double" where "times_double = dmul"
definition divide_double :: "double \<Rightarrow> double \<Rightarrow> double" where "divide_double = ddiv"
definition inverse_double :: "double \<Rightarrow> double" where "inverse_double = ddiv (Finite 1)"
definition abs_double :: "double \<Rightarrow> double" where "abs_double = dabs"

instance ..

end

definition double_arith :: "double arith" where
  "double_arith = \<lparr>GRAV = Finite (667430 / 10 ^ 16), AU = Finite 149597870700,
                    half = Finite (1 / 2), fsqrt = dsqrt, to_int = double_to_int\<rparr>"

text \<open>Two bodies at one place, and three bodies of which the outer two coincide.\<close>

definition coincident :: "double CelestialBody list" where
  "coincident =
     [CelestialBody0\<lparr>mass := Finite 2, x := Finite 1, y := Finite 1, z := Finite 1\<rparr>,
      CelestialBody0\<lparr>mass := Finite 3, x := Finite 1, y := Finite 1, z := Finite 1\<rparr>]"

definition eclipse :: "double CelestialBody list" where
  "eclipse =
     [CelestialBody0\<lparr>mass := Finite 2, x := Finite 5\<rparr>,
      CelestialBody0\<lparr>mass := Finite 1\<rparr>,
      CelestialBody0\<lparr>mass := Finite 4, x := Finite 5\<rparr>]"

section \<open>Configuration and history\<close>

text \<open>
  Everything of a body but its trajectory history, and the configuration of a system: of
  every body, in store order, everything but the history.
\<close>

definition clear_trajectory :: "'a CelestialBody \<Rightarrow> 'a CelestialBody" where
  "clear_trajectory b = b\<lparr>trajectory_x := [], trajectory_y := [], trajectory_z := []\<rparr>"

definition configuration :: "'a SolarSystem \<Rightarrow> 'a CelestialBody list" where
  "configuration s = map clear_trajectory (bodies s)"

text \<open>
  The position of a body and its trajectory buffer; a push of a sample (the body is at the
  sample when \<^verbatim>\<open>add_trajectory_point\<close> runs); the buffer as a list of samples, oldest
  first; the last \<open>c\<close> elements of a list; what every body set up by the program
  satisfies: a capacity that is a non-negative \<^verbatim>\<open>int\<close>, no more samples than the
  capacity, three vectors of one length.
\<close>

definition position :: "'a CelestialBody \<Rightarrow> 'a \<times> 'a \<times> 'a" where
  "position b = (x b, y b, z b)"

definition history :: "'a CelestialBody \<Rightarrow> 'a list \<times> 'a list \<times> 'a list" where
  "history b = (trajectory_x b, trajectory_y b, trajectory_z b)"

definition push :: "'a CelestialBody \<Rightarrow> 'a \<times> 'a \<times> 'a \<Rightarrow> 'a CelestialBody" where
  "push b p = add_trajectory_point (b\<lparr>x := fst p, y := fst (snd p), z := snd (snd p)\<rparr>)"

definition newest :: "nat \<Rightarrow> 'b list \<Rightarrow> 'b list" where
  "newest c vs = drop (length vs - c) vs"

definition within_capacity :: "'a CelestialBody \<Rightarrow> bool" where
  "within_capacity b \<longleftrightarrow>
     0 \<le> trajectory_max_points b \<and> trajectory_max_points b < 2 ^ 31 \<and>
     length (trajectory_x b) \<le> nat (trajectory_max_points b) \<and>
     length (trajectory_y b) = length (trajectory_x b) \<and>
     length (trajectory_z b) = length (trajectory_x b)"

definition samples_of :: "'a CelestialBody \<Rightarrow> ('a \<times> 'a \<times> 'a) list" where
  "samples_of b = zip (trajectory_x b) (zip (trajectory_y b) (trajectory_z b))"

definition in_au :: "'a::inverse arith \<Rightarrow> 'a \<times> 'a \<times> 'a \<Rightarrow> 'a list" where
  "in_au P p = [fst p / AU P, fst (snd p) / AU P, snd (snd p) / AU P]"

text \<open>
  The iterations of \<^verbatim>\<open>simulate\<close> that record a sample, and the samples of body \<open>k\<close>:
  its positions after \<open>i + 1\<close> steps, for the recording iterations \<open>i\<close>.
\<close>

definition sample_steps :: "nat \<Rightarrow> nat list" where
  "sample_steps n = filter (\<lambda>i. i mod 10 = 0) [0..<n]"

definition samples ::
  "'a::{zero,plus,minus,times,inverse} arith \<Rightarrow> 'a \<Rightarrow> 'a SolarSystem \<Rightarrow> nat \<Rightarrow> nat
     \<Rightarrow> ('a \<times> 'a \<times> 'a) list" where
  "samples P dt s k n =
     map (\<lambda>i. position (bodies ((step P dt ^^ Suc i) s) ! k)) (sample_steps n)"

section \<open>The force evaluator in closed form\<close>

lemma point_mass_set_acc [simp]: "point_mass (set_acc a b) = point_mass b"
  by (simp add: point_mass_def set_acc_def)

lemma set_acc_set_acc [simp]: "set_acc a (set_acc a' b) = set_acc a b"
  by (simp add: set_acc_def)

lemma contribution_cong:
  assumes "point_mass (bs ! i) = point_mass (bs' ! i)"
    and "point_mass (bs ! j) = point_mass (bs' ! j)"
  shows "contribution P bs i j = contribution P bs' i j"
  using assms by (simp add: contribution_def point_mass_def)

lemma accumulate_set_acc:
  assumes "i < length bs" "j \<noteq> i"
  shows "accumulate P i bs j =
     bs[i := set_acc (ax (bs ! i) + fst (contribution P bs i j),
                      ay (bs ! i) + fst (snd (contribution P bs i j)),
                      az (bs ! i) + snd (snd (contribution P bs i j))) (bs ! i)]"
  using assms by (simp add: accumulate_def contribution_def set_acc_def Let_def)

lemma accumulate_same [simp]: "accumulate P i bs i = bs"
  by (simp add: accumulate_def)

text \<open>
  The loop over \<open>j\<close> changes body \<open>i\<close> only, and only its acceleration, so every
  contribution is computed from the positions the loop started with.
\<close>

lemma foldl_accumulate:
  assumes "i < length bs"
  shows "foldl (accumulate P i) (bs[i := set_acc (a1, a2, a3) (bs ! i)]) js =
     bs[i := set_acc
        (foldl (+) a1 (map (\<lambda>j. fst (contribution P bs i j)) (filter (\<lambda>j. j \<noteq> i) js)),
         foldl (+) a2 (map (\<lambda>j. fst (snd (contribution P bs i j))) (filter (\<lambda>j. j \<noteq> i) js)),
         foldl (+) a3 (map (\<lambda>j. snd (snd (contribution P bs i j))) (filter (\<lambda>j. j \<noteq> i) js)))
        (bs ! i)]"
  using assms
proof (induction js arbitrary: a1 a2 a3)
  case Nil
  then show ?case by simp
next
  case (Cons j js)
  show ?case
  proof (cases "j = i")
    case True
    with Cons show ?thesis by simp
  next
    case False
    let ?bs0 = "bs[i := set_acc (a1, a2, a3) (bs ! i)]"
    have c: "contribution P ?bs0 i j = contribution P bs i j"
      using Cons.prems
      by (cases "j < length bs") (auto intro!: contribution_cong simp: nth_list_update)
    have "accumulate P i ?bs0 j =
       bs[i := set_acc (a1 + fst (contribution P bs i j),
                        a2 + fst (snd (contribution P bs i j)),
                        a3 + snd (snd (contribution P bs i j))) (bs ! i)]"
      using Cons.prems False by (simp add: accumulate_set_acc c) (simp add: set_acc_def)
    with Cons.IH [OF Cons.prems] False show ?thesis by simp
  qed
qed

lemma compute_acceleration_eq:
  assumes "i < length bs"
  shows "compute_acceleration P i bs = bs[i := set_acc (net_acceleration P bs i) (bs ! i)]"
proof -
  have "(bs ! i)\<lparr>ax := 0, ay := 0, az := 0\<rparr> = set_acc (0, 0, 0) (bs ! i)"
    by (simp add: set_acc_def)
  then show ?thesis
    using foldl_accumulate [OF assms, of P 0 0 0 "[0..<length bs]"]
    by (simp add: compute_acceleration_def net_acceleration_def others_def)
qed

lemma net_acceleration_cong:
  assumes "length bs = length bs'" "i < length bs"
    and "\<And>j. j < length bs \<Longrightarrow> point_mass (bs ! j) = point_mass (bs' ! j)"
  shows "net_acceleration P bs i = net_acceleration P bs' i"
proof -
  have "contribution P bs i j = contribution P bs' i j"
    if "j \<in> set (others i (length bs))" for j
    using that assms by (auto intro!: contribution_cong simp: others_def)
  then show ?thesis
    using assms(1) by (simp add: net_acceleration_def cong: map_cong)
qed

lemma compute_all_accelerations_prefix:
  assumes "k \<le> length bs"
  shows "foldl (\<lambda>cur i. compute_acceleration P i cur) bs [0..<k] =
     map (\<lambda>i. if i < k then set_acc (net_acceleration P bs i) (bs ! i) else bs ! i)
       [0..<length bs]"
  using assms
proof (induction k)
  case 0
  then show ?case by (simp add: map_nth)
next
  case (Suc k)
  let ?cur = "map (\<lambda>i. if i < k then set_acc (net_acceleration P bs i) (bs ! i) else bs ! i)
    [0..<length bs]"
  have k: "k < length bs" using Suc.prems by simp
  have cur: "foldl (\<lambda>cur i. compute_acceleration P i cur) bs [0..<k] = ?cur"
    using Suc by simp
  have net: "net_acceleration P ?cur k = net_acceleration P bs k"
    by (rule net_acceleration_cong) (use k in auto)
  have "compute_acceleration P k ?cur = ?cur[k := set_acc (net_acceleration P bs k) (bs ! k)]"
    using k by (simp add: compute_acceleration_eq net)
  also have "\<dots> = map (\<lambda>i. if i < Suc k then set_acc (net_acceleration P bs i) (bs ! i)
      else bs ! i) [0..<length bs]"
    using k by (intro nth_equalityI) (auto simp: nth_list_update less_Suc_eq)
  finally show ?case
    by (simp add: cur)
qed

lemma compute_all_accelerations_eq:
  "compute_all_accelerations P bs =
     map (\<lambda>i. set_acc (net_acceleration P bs i) (bs ! i)) [0..<length bs]"
  using compute_all_accelerations_prefix [of "length bs" bs P]
  by (simp add: compute_all_accelerations_def cong: map_cong)

lemma length_compute_all_accelerations [simp]:
  "length (compute_all_accelerations P bs) = length bs"
  by (simp add: compute_all_accelerations_eq)

lemma nth_compute_all_accelerations:
  "i < length bs \<Longrightarrow>
     compute_all_accelerations P bs ! i = set_acc (net_acceleration P bs i) (bs ! i)"
  by (simp add: compute_all_accelerations_eq)

lemma upt_2: "[0..<2] = [0, 1]"
  by (simp add: upt_rec)

lemma upt_3: "[0..<3] = [0, 1, 2]"
  by (simp add: upt_rec)

section \<open>One step\<close>

lemma length_bodies_step [simp]: "length (bodies (step P dt s)) = length (bodies s)"
  by (simp add: step_def Let_def)

lemma nth_bodies_step:
  assumes "i < length (bodies s)"
  shows "bodies (step P dt s) ! i =
     update_velocity P dt
       (set_acc (net_acceleration P (map (update_position P dt) (map store_old (bodies s))) i)
          (update_position P dt (store_old (bodies s ! i))))"
  using assms by (simp add: step_def Let_def nth_compute_all_accelerations)

lemma point_mass_update_velocity [simp]: "point_mass (update_velocity P dt b) = point_mass b"
  by (simp add: point_mass_def update_velocity_def)

lemma net_acceleration_after_step:
  assumes "i < length (bodies s)"
  shows "net_acceleration P (bodies (step P dt s)) i =
     net_acceleration P (map (update_position P dt) (map store_old (bodies s))) i"
  by (rule net_acceleration_cong) (use assms in \<open>auto simp: nth_bodies_step\<close>)

text \<open>
  C1. For every state, every \<open>dt\<close> and every body \<open>i\<close>, \<^verbatim>\<open>step(dt)\<close> saves the current
  acceleration as the previous one, moves the position by
  \<open>velocity * dt + 0.5 * acceleration * dt * dt\<close> of the state before the step, sets the
  acceleration to the net gravitational acceleration at the updated positions (those of
  the state after the step), adds \<open>0.5 * (previous + new acceleration) * dt\<close> to the
  velocity, adds \<open>dt\<close> to the clock and one to the step counter.
\<close>

theorem step_velocity_verlet:
  assumes "i < length (bodies s)"
  shows "let b = bodies s ! i; s' = step P dt s; b' = bodies s' ! i in
     length (bodies s') = length (bodies s) \<and>
     ax_old b' = ax b \<and> ay_old b' = ay b \<and> az_old b' = az b \<and>
     x b' = x b + (vx b * dt + half P * ax b * dt * dt) \<and>
     y b' = y b + (vy b * dt + half P * ay b * dt * dt) \<and>
     z b' = z b + (vz b * dt + half P * az b * dt * dt) \<and>
     (ax b', ay b', az b') = net_acceleration P (bodies s') i \<and>
     vx b' = vx b + half P * (ax b + ax b') * dt \<and>
     vy b' = vy b + half P * (ay b + ay b') * dt \<and>
     vz b' = vz b + half P * (az b + az b') * dt \<and>
     mass b' = mass b \<and>
     simulation_time s' = simulation_time s + dt \<and>
     step_count s' = step_count s + 1"
proof -
  have t: "simulation_time (step P dt s) = simulation_time s + dt"
    "step_count (step P dt s) = step_count s + 1"
    by (simp_all add: step_def Let_def)
  show ?thesis
    unfolding Let_def net_acceleration_after_step [OF assms] t
    using assms
    by (simp add: nth_bodies_step update_velocity_def set_acc_def update_position_def
        store_old_def)
qed

theorem step_velocity_verlet_witness:
  "1 < length (bodies two_bodies) \<and>
   x (bodies (step real_arith 2 two_bodies) ! 1) = 3 \<and>
   y (bodies (step real_arith 2 two_bodies) ! 1) = 6 \<and>
   az_old (bodies (step real_arith 2 two_bodies) ! 1) = 0 \<and>
   simulation_time (step real_arith 2 two_bodies) = 2 \<and>
   step_count (step real_arith 2 two_bodies) = 1"
  using step_velocity_verlet [of 1 two_bodies real_arith 2]
  by (simp add: Let_def two_bodies_def SolarSystem0_def heavy_def light_def CelestialBody0_def
      real_arith_def)

section \<open>The configuration determines the run\<close>

text \<open>
  \<^verbatim>\<open>step\<close> reads no trajectory buffer, no clock, no counter and no energy: the next
  configuration is a function of the configuration and \<open>dt\<close>.
\<close>

lemma clear_trajectory_eqD:
  assumes "clear_trajectory b = clear_trajectory c"
  shows "c = b\<lparr>trajectory_x := trajectory_x c, trajectory_y := trajectory_y c,
    trajectory_z := trajectory_z c\<rparr>"
  using assms by (cases b; cases c) (simp add: clear_trajectory_def)

lemma clear_trajectory_moved:
  assumes "clear_trajectory b = clear_trajectory c"
  shows "point_mass (update_position P dt (store_old b)) =
      point_mass (update_position P dt (store_old c))"
    and "clear_trajectory (update_velocity P dt (set_acc a (update_position P dt (store_old b)))) =
      clear_trajectory (update_velocity P dt (set_acc a (update_position P dt (store_old c))))"
proof -
  obtain tx ty tz where c: "c = b\<lparr>trajectory_x := tx, trajectory_y := ty, trajectory_z := tz\<rparr>"
    using clear_trajectory_eqD [OF assms] by blast
  show "point_mass (update_position P dt (store_old b)) =
      point_mass (update_position P dt (store_old c))"
    unfolding c by (simp add: point_mass_def update_position_def store_old_def)
  show "clear_trajectory (update_velocity P dt (set_acc a (update_position P dt (store_old b)))) =
      clear_trajectory (update_velocity P dt (set_acc a (update_position P dt (store_old c))))"
    unfolding c
    by (simp add: update_position_def store_old_def update_velocity_def
         set_acc_def clear_trajectory_def)
qed

lemma configuration_nth:
  assumes "configuration s1 = configuration s2"
  shows "length (bodies s1) = length (bodies s2)"
    and "i < length (bodies s1) \<Longrightarrow>
      clear_trajectory (bodies s1 ! i) = clear_trajectory (bodies s2 ! i)"
proof -
  show l: "length (bodies s1) = length (bodies s2)"
    using assms unfolding configuration_def by (rule map_eq_imp_length_eq)
  show "clear_trajectory (bodies s1 ! i) = clear_trajectory (bodies s2 ! i)"
    if "i < length (bodies s1)"
    using that l arg_cong [OF assms, of "\<lambda>l. l ! i"] by (simp add: configuration_def)
qed

lemma configuration_step:
  assumes "configuration s1 = configuration s2"
  shows "configuration (step P dt s1) = configuration (step P dt s2)"
proof -
  note c = configuration_nth [OF assms]
  let ?m1 = "map (update_position P dt) (map store_old (bodies s1))"
  let ?m2 = "map (update_position P dt) (map store_old (bodies s2))"
  have net: "net_acceleration P ?m1 i = net_acceleration P ?m2 i" if "i < length (bodies s1)" for i
    by (rule net_acceleration_cong) (use that c in \<open>auto intro: clear_trajectory_moved(1)\<close>)
  have "clear_trajectory (bodies (step P dt s1) ! i) = clear_trajectory (bodies (step P dt s2) ! i)"
    if "i < length (bodies s1)" for i
  proof -
    have "i < length (bodies s2)" using that c(1) by simp
    then show ?thesis
      unfolding nth_bodies_step [OF that] nth_bodies_step [OF \<open>i < length (bodies s2)\<close>] net [OF that]
      by (intro clear_trajectory_moved(2) c(2) that)
  qed
  then show ?thesis
    unfolding configuration_def
    by (intro nth_equalityI) (simp_all add: c(1))
qed

lemma configuration_steps:
  assumes "configuration s1 = configuration s2"
  shows "configuration ((step P dt ^^ n) s1) = configuration ((step P dt ^^ n) s2)"
proof (induction n)
  case 0
  show ?case using assms by simp
next
  case (Suc n)
  show ?case
    unfolding funpow.simps comp_def by (rule configuration_step) (rule Suc)
qed

lemma get_positions_configuration:
  "get_positions s = concat (map (\<lambda>b. [x b, y b, z b]) (configuration s))"
  by (simp add: get_positions_def configuration_def comp_def clear_trajectory_def)

lemma get_velocities_configuration:
  "get_velocities s = concat (map (\<lambda>b. [vx b, vy b, vz b]) (configuration s))"
  by (simp add: get_velocities_def configuration_def comp_def clear_trajectory_def)

text \<open>
  C8. For every body \<open>i\<close> the force evaluator leaves in \<open>ax\<close>, \<open>ay\<close>, \<open>az\<close> the sum
  \<open>((0 + c1) + c2) + ...\<close> of the contributions
  \<open>G * mass(j) / r^3 * (position(j) - position(i))\<close> of the other bodies \<open>j\<close>, taken in
  ascending body index; and two runs of \<open>n\<close> steps with the same \<open>dt\<close> from two states of
  one configuration report identical positions and identical velocities, whatever the
  states' clocks, counters, cached energies and trajectory buffers are.
\<close>

theorem force_order_and_determinism:
  "(i < length bs \<longrightarrow>
      (let b' = compute_all_accelerations P bs ! i; js = filter (\<lambda>j. j \<noteq> i) [0..<length bs] in
         ax b' = foldl (+) 0 (map (\<lambda>j. fst (contribution P bs i j)) js) \<and>
         ay b' = foldl (+) 0 (map (\<lambda>j. fst (snd (contribution P bs i j))) js) \<and>
         az b' = foldl (+) 0 (map (\<lambda>j. snd (snd (contribution P bs i j))) js))) \<and>
   (configuration s1 = configuration s2 \<longrightarrow>
      get_positions ((step P dt ^^ n) s1) = get_positions ((step P dt ^^ n) s2) \<and>
      get_velocities ((step P dt ^^ n) s1) = get_velocities ((step P dt ^^ n) s2))"
proof (intro conjI impI)
  assume "i < length bs"
  then show "let b' = compute_all_accelerations P bs ! i; js = filter (\<lambda>j. j \<noteq> i) [0..<length bs] in
         ax b' = foldl (+) 0 (map (\<lambda>j. fst (contribution P bs i j)) js) \<and>
         ay b' = foldl (+) 0 (map (\<lambda>j. fst (snd (contribution P bs i j))) js) \<and>
         az b' = foldl (+) 0 (map (\<lambda>j. snd (snd (contribution P bs i j))) js)"
    by (simp add: nth_compute_all_accelerations set_acc_def net_acceleration_def others_def)
next
  assume "configuration s1 = configuration s2"
  then have c: "configuration ((step P dt ^^ n) s1) = configuration ((step P dt ^^ n) s2)"
    by (rule configuration_steps)
  show "get_positions ((step P dt ^^ n) s1) = get_positions ((step P dt ^^ n) s2)"
    by (simp only: get_positions_configuration c)
  show "get_velocities ((step P dt ^^ n) s1) = get_velocities ((step P dt ^^ n) s2)"
    by (simp only: get_velocities_configuration c)
qed

lemma sqrt_25: "sqrt 25 = 5"
  by (rule real_sqrt_unique) simp_all

theorem force_order_and_determinism_witness:
  "1 < length [heavy, light] \<and>
   ax (compute_all_accelerations real_arith [heavy, light] ! 1) =
     0 + GRAV real_arith * 2 / (25 * 5) * (0 - 3) \<and>
   configuration two_bodies = configuration (record_trajectories two_bodies) \<and>
   get_positions ((step real_arith 2 ^^ 3) two_bodies) =
     get_positions ((step real_arith 2 ^^ 3) (record_trajectories two_bodies)) \<and>
   get_velocities ((step real_arith 2 ^^ 3) two_bodies) =
     get_velocities ((step real_arith 2 ^^ 3) (record_trajectories two_bodies))"
proof -
  have c: "configuration two_bodies = configuration (record_trajectories two_bodies)"
    by (simp add: configuration_def record_trajectories_def two_bodies_def SolarSystem0_def
        clear_trajectory_def add_trajectory_point_def Let_def)
  have a: "fst (contribution real_arith [heavy, light] 1 0) =
      GRAV real_arith * 2 / (25 * 5) * (0 - 3)"
    by (simp add: contribution_def heavy_def light_def CelestialBody0_def real_arith_def
        sqrt_25 Let_def)
  show ?thesis
    using force_order_and_determinism
      [of 1 "[heavy, light]" real_arith two_bodies "record_trajectories two_bodies" 3 2] c a
    by (simp add: upt_2 Let_def)
qed

section \<open>Coincident bodies\<close>

lemma foldl_dadd_NaN [simp]: "foldl (+) NaN ds = NaN"
  by (induction ds) (simp_all add: plus_double_def)

lemma foldl_plus_NaN:
  assumes "j \<in> set js" "c j = NaN"
  shows "foldl (+) a (map c js) = NaN"
  using assms
proof (induction js arbitrary: a)
  case Nil
  then show ?case by simp
next
  case (Cons k js)
  show ?case
  proof (cases "k = j")
    case True
    have "a + NaN = NaN" by (cases a) (simp_all add: plus_double_def)
    with True Cons.prems show ?thesis by simp
  next
    case False
    with Cons show ?thesis by simp
  qed
qed

text \<open>Whatever is divided by zero, the quotient times zero is NaN.\<close>

lemma ddiv_zero_times_zero: "dmul (ddiv d (Finite 0)) (Finite 0) = NaN"
  by (cases d) (simp_all add: signed_inf_def)

lemma contribution_coincident:
  assumes "x (bs ! j) = x (bs ! i)" "y (bs ! j) = y (bs ! i)" "z (bs ! j) = z (bs ! i)"
    and "x (bs ! i) = Finite a" "y (bs ! i) = Finite b" "z (bs ! i) = Finite c"
    and "fsqrt P = dsqrt"
  shows "contribution P bs i j = (NaN, NaN, NaN)"
  using assms
  by (simp add: contribution_def zero_double_def plus_double_def minus_double_def
      times_double_def divide_double_def Let_def ddiv_zero_times_zero)

text \<open>
  C2, as the code has it. The force evaluator tests no separation and has no error to
  signal. When two bodies \<open>i \<noteq> j\<close> are at one finite position, it divides by
  \<open>r^3 = 0\<close>, and the acceleration it leaves in body \<open>i\<close> is NaN in all three
  components, whatever the masses and the other bodies are.
\<close>

theorem coincident_bodies_nan:
  assumes "i < length bs" "j < length bs" "j \<noteq> i"
    and "x (bs ! j) = x (bs ! i)" "y (bs ! j) = y (bs ! i)" "z (bs ! j) = z (bs ! i)"
    and "x (bs ! i) = Finite a" "y (bs ! i) = Finite b" "z (bs ! i) = Finite c"
    and "fsqrt P = dsqrt"
  shows "let b' = compute_all_accelerations P bs ! i
         in ax b' = NaN \<and> ay b' = NaN \<and> az b' = NaN"
proof -
  have c: "contribution P bs i j = (NaN, NaN, NaN)"
    using assms(4-10) by (rule contribution_coincident)
  have j: "j \<in> set (others i (length bs))"
    using assms(2,3) by (simp add: others_def)
  show ?thesis
    using assms(1) j c
    by (simp add: nth_compute_all_accelerations set_acc_def net_acceleration_def foldl_plus_NaN)
qed

theorem coincident_bodies_nan_witness:
  "0 < length eclipse \<and> 2 < length eclipse \<and> (2::nat) \<noteq> 0 \<and>
   x (eclipse ! 2) = x (eclipse ! 0) \<and> y (eclipse ! 2) = y (eclipse ! 0) \<and>
   z (eclipse ! 2) = z (eclipse ! 0) \<and>
   x (eclipse ! 0) = Finite 5 \<and> y (eclipse ! 0) = Finite 0 \<and> z (eclipse ! 0) = Finite 0 \<and>
   fsqrt double_arith = dsqrt \<and>
   ax (compute_all_accelerations double_arith eclipse ! 0) = NaN \<and>
   ay (compute_all_accelerations double_arith eclipse ! 0) = NaN \<and>
   az (compute_all_accelerations double_arith eclipse ! 0) = NaN"
  using coincident_bodies_nan [of 0 eclipse 2 5 0 0 double_arith]
  by (simp add: eclipse_def CelestialBody0_def double_arith_def zero_double_def Let_def)

text \<open>
  The claim as stated fails on two bodies at the place \<open>(1, 1, 1)\<close>: the evaluator
  returns, and both accelerations are NaN.
\<close>

theorem singularity_counterexample:
  "x (coincident ! 0) = x (coincident ! 1) \<and> y (coincident ! 0) = y (coincident ! 1) \<and>
   z (coincident ! 0) = z (coincident ! 1) \<and>
   ax (compute_all_accelerations double_arith coincident ! 0) = NaN \<and>
   ay (compute_all_accelerations double_arith coincident ! 0) = NaN \<and>
   az (compute_all_accelerations double_arith coincident ! 0) = NaN \<and>
   ax (compute_all_accelerations double_arith coincident ! 1) = NaN"
  by (simp add: coincident_def CelestialBody0_def compute_all_accelerations_def
      compute_acceleration_def accumulate_def upt_2 double_arith_def zero_double_def
      plus_double_def minus_double_def times_double_def divide_double_def signed_inf_def
      Let_def)

section \<open>Total energy\<close>

lemma energy_loop_general:
  "foldl (\<lambda>(kinetic, potential) i.
            (kinetic + f i, foldl (\<lambda>pot j. pot - g i j) potential [i + 1..<n]))
     (k0, p0) is =
   (foldl (+) k0 (map f is),
    foldl (\<lambda>pot (i, j). pot - g i j) p0 (concat (map (\<lambda>i. map (Pair i) [i + 1..<n]) is)))"
  by (induction "is" arbitrary: k0 p0) (simp_all add: foldl_map)

lemma map_index: "map (\<lambda>i. f (bs ! i)) [0..<length bs] = map f bs"
  by (rule nth_equalityI) simp_all

lemma calculate_total_energy_folds:
  "calculate_total_energy P bs =
     foldl (+) 0 (map (kinetic_term P) bs) +
     foldl (\<lambda>pot (i, j). pot - pair_potential P bs i j) 0 (upper_pairs (length bs))"
proof -
  have "energy_loop P bs =
    (foldl (+) 0 (map (\<lambda>i. kinetic_term P (bs ! i)) [0..<length bs]),
     foldl (\<lambda>pot (i, j). pot - pair_potential P bs i j) 0 (upper_pairs (length bs)))"
    unfolding energy_loop_def upper_pairs_def by (rule energy_loop_general)
  then show ?thesis
    by (simp add: calculate_total_energy_def map_index)
qed

lemma sum_list_concat_map:
  fixes f :: "'b \<Rightarrow> 'a::monoid_add list"
  shows "sum_list (concat (map f xs)) = sum_list (map (\<lambda>a. sum_list (f a)) xs)"
  by (induction xs) simp_all

lemma sum_list_upper_pairs:
  fixes h :: "nat \<times> nat \<Rightarrow> 'a::ab_group_add"
  shows "sum_list (map h (upper_pairs n)) = (\<Sum>(i, j)\<in>{(i, j). i < j \<and> j < n}. h (i, j))"
proof -
  have "sum_list (map h (upper_pairs n)) = (\<Sum>i\<in>{0..<n}. \<Sum>j\<in>{i + 1..<n}. h (i, j))"
    by (simp add: upper_pairs_def map_concat sum_list_concat_map comp_def
        interv_sum_list_conv_sum_set_nat)
  also have "\<dots> = (\<Sum>(i, j)\<in>(SIGMA i:{0..<n}. {i + 1..<n}). h (i, j))"
    by (simp add: sum.Sigma)
  also have "(SIGMA i:{0..<n}. {i + 1..<n}) = {(i, j). i < j \<and> j < n}"
    by auto
  finally show ?thesis .
qed

lemma foldl_plus_sum_list:
  fixes a :: "'a::ab_group_add"
  shows "foldl (+) a vs = a + sum_list vs"
  by (induction vs arbitrary: a) (simp_all add: add.assoc)

lemma foldl_minus_sum_list:
  fixes a :: "'a::ab_group_add"
  shows "foldl (\<lambda>pot ij. pot - g ij) a ps = a + sum_list (map (\<lambda>ij. - g ij) ps)"
  by (induction ps arbitrary: a) (simp_all add: algebra_simps)

text \<open>
  C3. \<^verbatim>\<open>calculate_total_energy\<close> returns the sum over the bodies \<open>i\<close> of
  \<open>0.5 * mass(i) * |velocity(i)|^2\<close> plus the sum over the pairs \<open>i < j\<close>, one for every
  unordered pair of distinct bodies, of \<open>- G * mass(i) * mass(j) / r(i, j)\<close>. The sums are
  those of a commutative group, as of the reals; for an arithmetic without laws the order
  of the additions is that of \<open>calculate_total_energy_folds\<close>. The function takes the
  bodies and returns a number: it has no state to return.
\<close>

theorem total_energy_formula:
  fixes P :: "'a::{ab_group_add,times,inverse} arith"
  shows "calculate_total_energy P bs =
     (\<Sum>i<length bs. half P * mass (bs ! i) *
         (vx (bs ! i) * vx (bs ! i) + vy (bs ! i) * vy (bs ! i) + vz (bs ! i) * vz (bs ! i))) +
     (\<Sum>(i, j)\<in>{(i, j). i < j \<and> j < length bs}.
         - (GRAV P * mass (bs ! i) * mass (bs ! j) / separation P (bs ! i) (bs ! j)))"
proof -
  have k: "foldl (+) 0 (map (kinetic_term P) bs) = (\<Sum>i<length bs. kinetic_term P (bs ! i))"
    by (simp add: foldl_plus_sum_list sum_list_sum_nth atLeast0LessThan)
  have "foldl (\<lambda>pot (i, j). pot - pair_potential P bs i j) 0 (upper_pairs (length bs)) =
      sum_list (map (\<lambda>(i, j). - pair_potential P bs i j) (upper_pairs (length bs)))"
    using foldl_minus_sum_list [of "\<lambda>(i, j). pair_potential P bs i j" 0 "upper_pairs (length bs)"]
    by (simp add: case_prod_unfold)
  also have "\<dots> = (\<Sum>(i, j)\<in>{(i, j). i < j \<and> j < length bs}. - pair_potential P bs i j)"
    using sum_list_upper_pairs [of "\<lambda>(i, j). - pair_potential P bs i j" "length bs"] by simp
  finally show ?thesis
    by (simp add: calculate_total_energy_folds k kinetic_term_def pair_potential_def
        separation_def Let_def)
qed

section \<open>Arguments the specification rejects\<close>

text \<open>
  C6, as the code has it. \<^verbatim>\<open>step(dt)\<close> has no test on \<open>dt\<close> and no failure: for every
  \<open>dt\<close>, positive or not, it returns the updated state, with \<open>dt\<close> added to the clock and
  the step counter one higher, so never the state it was given.
\<close>

theorem step_any_dt:
  "simulation_time (step P dt s) = simulation_time s + dt \<and>
   step_count (step P dt s) = step_count s + 1 \<and>
   step_count (step P dt s) \<noteq> step_count s \<and>
   length (bodies (step P dt s)) = length (bodies s) \<and>
   (\<forall>i<length (bodies s).
      x (bodies (step P dt s) ! i) =
        x (bodies s ! i) + (vx (bodies s ! i) * dt + half P * ax (bodies s ! i) * dt * dt) \<and>
      y (bodies (step P dt s) ! i) =
        y (bodies s ! i) + (vy (bodies s ! i) * dt + half P * ay (bodies s ! i) * dt * dt) \<and>
      z (bodies (step P dt s) ! i) =
        z (bodies s ! i) + (vz (bodies s ! i) * dt + half P * az (bodies s ! i) * dt * dt))"
  by (simp add: nth_bodies_step update_velocity_def set_acc_def update_position_def
      store_old_def)
    (simp add: step_def Let_def)

theorem step_any_dt_witness:
  "(0::nat) < length (bodies two_bodies) \<and> 1 < length (bodies two_bodies) \<and>
   (0::real) \<le> 0 \<and>
   bodies two_bodies ! 1 = light \<and> y light = 4 \<and> vy light = 1 \<and> ay light = 0 \<and>
   simulation_time (step real_arith 0 two_bodies) = simulation_time two_bodies + 0 \<and>
   step_count (step real_arith 0 two_bodies) = step_count two_bodies + 1 \<and>
   y (bodies (step real_arith 0 two_bodies) ! 1) = 4 + (1 * 0 + half real_arith * 0 * 0 * 0)"
proof -
  have b: "bodies two_bodies = [heavy, light]"
    by (simp add: two_bodies_def SolarSystem0_def)
  have l: "y light = 4" "vy light = 1" "ay light = 0"
    by (simp_all add: light_def CelestialBody0_def)
  have "\<forall>i<length (bodies two_bodies).
      y (bodies (step real_arith 0 two_bodies) ! i) =
        y (bodies two_bodies ! i) +
        (vy (bodies two_bodies ! i) * 0 + half real_arith * ay (bodies two_bodies ! i) * 0 * 0)"
    using step_any_dt [of real_arith 0 two_bodies] by blast
  from this [rule_format, of 1] show ?thesis
    using step_any_dt [of real_arith 0 two_bodies] by (simp add: b l)
qed

text \<open>
  The claim as stated fails at \<open>dt = - 1\<close>. On a freshly constructed system, which has
  no body, the clock goes to \<open>- 1\<close> and the counter to 1; on two bodies moreover the
  step runs backwards, and the second body moves from \<open>y = 4\<close> to \<open>y = 3\<close>.
\<close>

theorem step_nonpositive_dt_counterexample:
  "(- 1 :: real) \<le> 0 \<and>
   simulation_time (SolarSystem0 :: real SolarSystem) = 0 \<and>
   simulation_time (step real_arith (- 1) SolarSystem0) = - 1 \<and>
   step_count (SolarSystem0 :: real SolarSystem) = 0 \<and>
   step_count (step real_arith (- 1) SolarSystem0) = 1 \<and>
   y (bodies two_bodies ! 1) = 4 \<and>
   y (bodies (step real_arith (- 1) two_bodies) ! 1) = 3 \<and>
   simulation_time two_bodies = 0 \<and>
   simulation_time (step real_arith (- 1) two_bodies) = - 1 \<and>
   step_count two_bodies = 0 \<and>
   step_count (step real_arith (- 1) two_bodies) = 1"
  by (simp add: step_def two_bodies_def SolarSystem0_def Let_def heavy_def light_def
      CelestialBody0_def update_position_def store_old_def update_velocity_def
      compute_all_accelerations_def compute_acceleration_def accumulate_def upt_2
      real_arith_def)

text \<open>
  C7, as the code has it. \<^verbatim>\<open>get_trajectory\<close> takes a position in the store, not the
  \<^verbatim>\<open>id\<close> field of a body; for a position that is negative or not below the number of
  bodies it returns the empty vector, and raises nothing.
\<close>

theorem get_trajectory_out_of_range:
  assumes "body_index < 0 \<or> int (length (bodies s)) \<le> body_index"
  shows "get_trajectory P s body_index = []"
  using assms by (auto simp: get_trajectory_def)

theorem get_trajectory_out_of_range_witness:
  "((5::int) < 0 \<or> int (length (bodies (record_trajectories two_bodies))) \<le> 5) \<and>
   get_trajectory real_arith (record_trajectories two_bodies) 5 = []"
  using get_trajectory_out_of_range [of 5 "record_trajectories two_bodies" real_arith]
  by (simp add: record_trajectories_def two_bodies_def SolarSystem0_def)

text \<open>
  The claim as stated fails on a freshly constructed system, where the query at 0
  succeeds with the empty vector, and on the two-body store, where the queries at 2, at
  \<open>- 1\<close> and at 31 (the \<^verbatim>\<open>id\<close> of the second body) do.
\<close>

theorem get_trajectory_unknown_counterexample:
  "bodies (SolarSystem0 :: real SolarSystem) = [] \<and>
   get_trajectory real_arith SolarSystem0 0 = [] \<and>
   length (bodies two_bodies) = 2 \<and>
   get_trajectory real_arith two_bodies 2 = [] \<and>
   get_trajectory real_arith two_bodies (- 1) = [] \<and>
   body_id (bodies two_bodies ! 1) = 31 \<and>
   get_trajectory real_arith two_bodies 31 = []"
  by (simp add: get_trajectory_def two_bodies_def SolarSystem0_def light_def CelestialBody0_def)

section \<open>The cached energies\<close>

lemma simulate_loop_Suc:
  "simulate_loop P dt (Suc n) s = simulate_iteration P dt (simulate_loop P dt n s) n"
  by (simp add: simulate_loop_def)

lemma simulate_loop_0 [simp]: "simulate_loop P dt 0 s = s"
  by (simp add: simulate_loop_def)

lemma step_energies [simp]:
  "total_energy (step P dt s) = total_energy s"
  "initial_energy (step P dt s) = initial_energy s"
  by (simp_all add: step_def Let_def)

lemma steps_energies:
  "total_energy ((step P dt ^^ n) s) = total_energy s \<and>
   initial_energy ((step P dt ^^ n) s) = initial_energy s"
  by (induction n) simp_all

lemma simulate_iteration_energies [simp]:
  "total_energy (simulate_iteration P dt s i) = total_energy s"
  "initial_energy (simulate_iteration P dt s i) = initial_energy s"
  by (simp_all add: simulate_iteration_def record_trajectories_def Let_def)

lemma simulate_loop_initial_energy [simp]:
  "initial_energy (simulate_loop P dt n s) = initial_energy s"
  by (induction n) (simp_all add: simulate_loop_Suc)

text \<open>
  C9. \<^verbatim>\<open>step\<close> leaves \<^verbatim>\<open>total_energy\<close> and \<^verbatim>\<open>initial_energy\<close> as they are, over
  any number of direct calls, so \<^verbatim>\<open>get_total_energy\<close> and \<^verbatim>\<open>get_energy_error\<close>
  report after them what they reported before. \<^verbatim>\<open>simulate\<close> ends by setting
  \<^verbatim>\<open>total_energy\<close> to the energy of the bodies it has reached and keeps
  \<^verbatim>\<open>initial_energy\<close>; setup sets both to the energy of the bodies it has set up.
\<close>

theorem step_keeps_cached_energy:
  fixes P :: "'a::{zero,plus,minus,times,inverse,abs} arith"
  shows
  "total_energy ((step P dt ^^ n) s) = total_energy s \<and>
   initial_energy ((step P dt ^^ n) s) = initial_energy s \<and>
   get_total_energy ((step P dt ^^ n) s) = get_total_energy s \<and>
   get_energy_error ((step P dt ^^ n) s) = get_energy_error s \<and>
   (simulate P duration dt s = Some s' \<longrightarrow>
      total_energy s' = calculate_total_energy P (bodies s') \<and>
      initial_energy s' = initial_energy s) \<and>
   (let s0 = init_real_solar_system P table
    in initial_energy s0 = calculate_total_energy P (bodies s0) \<and>
       total_energy s0 = initial_energy s0)"
proof -
  have "total_energy s' = calculate_total_energy P (bodies s') \<and>
      initial_energy s' = initial_energy s"
    if "simulate P duration dt s = Some s'"
    using that by (auto simp: simulate_def Let_def split: option.splits)
  then show ?thesis
    by (simp add: steps_energies get_total_energy_def get_energy_error_def
        init_real_solar_system_def Let_def)
qed

theorem step_keeps_cached_energy_witness:
  "simulate real_arith 7 2 two_bodies = Some (the (simulate real_arith 7 2 two_bodies)) \<and>
   total_energy (the (simulate real_arith 7 2 two_bodies)) =
     calculate_total_energy real_arith (bodies (the (simulate real_arith 7 2 two_bodies))) \<and>
   initial_energy (the (simulate real_arith 7 2 two_bodies)) = 0 \<and>
   get_total_energy ((step real_arith 2 ^^ 3) two_bodies) = 0"
proof -
  have "simulate real_arith 7 2 two_bodies = Some (the (simulate real_arith 7 2 two_bodies))"
    by (simp add: simulate_def real_arith_def real_to_int_def Let_def)
  then show ?thesis
    using step_keeps_cached_energy
      [where P = real_arith and dt = 2 and n = 3 and s = two_bodies and duration = 7
        and s' = "the (simulate real_arith 7 2 two_bodies)"]
    by (simp add: get_total_energy_def two_bodies_def SolarSystem0_def)
qed

section \<open>The trajectory buffer\<close>

lemma size_t_of_int_nat: "0 \<le> c \<Longrightarrow> c < 2 ^ 31 \<Longrightarrow> size_t_of_int c = nat c"
  by (simp add: size_t_of_int_def)

lemma newest_append_newest: "newest c (newest c vs @ ws) = newest c (vs @ ws)"
proof (cases "length vs \<le> c")
  case True
  then show ?thesis by (simp add: newest_def)
next
  case False
  then have "drop (length vs - c + length ws) (vs @ ws) = drop (length ws) (drop (length vs - c) vs @ ws)"
    by (simp add: add.commute)
  with False show ?thesis by (simp add: newest_def)
qed

lemma length_newest: "length (newest c vs) \<le> c"
  by (simp add: newest_def)

lemma newest_snoc:
  assumes "length vs \<le> c"
  shows "newest c (vs @ [v]) = (if c < length (vs @ [v]) then tl (vs @ [v]) else vs @ [v])"
proof (cases "c < length (vs @ [v])")
  case True
  with assms have "length (vs @ [v]) - c = Suc 0" by simp
  then have "newest c (vs @ [v]) = tl (vs @ [v])"
    unfolding newest_def by (simp only: drop_Suc drop_0)
  with True show ?thesis by (simp only: if_True)
next
  case False
  then show ?thesis by (simp add: newest_def)
qed

lemma push_newest:
  assumes "within_capacity b"
  shows "trajectory_x (push b p) = newest (nat (trajectory_max_points b)) (trajectory_x b @ [fst p])"
    and "trajectory_y (push b p) = newest (nat (trajectory_max_points b)) (trajectory_y b @ [fst (snd p)])"
    and "trajectory_z (push b p) = newest (nat (trajectory_max_points b)) (trajectory_z b @ [snd (snd p)])"
    and "trajectory_max_points (push b p) = trajectory_max_points b"
proof -
  let ?c = "nat (trajectory_max_points b)"
  have c: "size_t_of_int (trajectory_max_points b) = ?c"
    and l: "length (trajectory_x b) \<le> ?c" "length (trajectory_y b) \<le> ?c" "length (trajectory_z b) \<le> ?c"
    and e: "length (trajectory_y b) = length (trajectory_x b)" "length (trajectory_z b) = length (trajectory_x b)"
    using assms by (simp_all add: within_capacity_def size_t_of_int_nat)
  show "trajectory_x (push b p) = newest ?c (trajectory_x b @ [fst p])"
    unfolding newest_snoc [OF l(1)] by (simp add: push_def add_trajectory_point_def Let_def c)
  show "trajectory_y (push b p) = newest ?c (trajectory_y b @ [fst (snd p)])"
    unfolding newest_snoc [OF l(2)] by (simp add: push_def add_trajectory_point_def Let_def c e)
  show "trajectory_z (push b p) = newest ?c (trajectory_z b @ [snd (snd p)])"
    unfolding newest_snoc [OF l(3)] by (simp add: push_def add_trajectory_point_def Let_def c e)
  show "trajectory_max_points (push b p) = trajectory_max_points b"
    by (simp add: push_def add_trajectory_point_def Let_def)
qed

lemma within_capacity_push:
  assumes "within_capacity b"
  shows "within_capacity (push b p)"
  using assms push_newest [OF assms, of p]
  by (simp add: within_capacity_def newest_def)

lemma foldl_push_newest:
  assumes "within_capacity b"
  shows "within_capacity (foldl push b ps) \<and>
     trajectory_max_points (foldl push b ps) = trajectory_max_points b \<and>
     trajectory_x (foldl push b ps) =
       newest (nat (trajectory_max_points b)) (trajectory_x b @ map fst ps) \<and>
     trajectory_y (foldl push b ps) =
       newest (nat (trajectory_max_points b)) (trajectory_y b @ map (\<lambda>p. fst (snd p)) ps) \<and>
     trajectory_z (foldl push b ps) =
       newest (nat (trajectory_max_points b)) (trajectory_z b @ map (\<lambda>p. snd (snd p)) ps)"
  using assms
proof (induction ps arbitrary: b)
  case Nil
  then show ?case by (simp add: newest_def within_capacity_def)
next
  case (Cons p ps)
  note w = within_capacity_push [OF Cons.prems, of p]
  show ?case
    using Cons.IH [OF w] push_newest [OF Cons.prems, of p]
    by (simp add: newest_append_newest)
qed

lemma zip_projections:
  "zip (map fst ps) (zip (map (\<lambda>p. fst (snd p)) ps) (map (\<lambda>p. snd (snd p)) ps)) = ps"
  by (induction ps) simp_all

lemma trajectory_au_samples:
  assumes "length (trajectory_y b) = length (trajectory_x b)"
    and "length (trajectory_z b) = length (trajectory_x b)"
  shows "trajectory_au P b = concat (map (in_au P) (samples_of b))"
proof -
  have "map (\<lambda>i. [trajectory_x b ! i / AU P, trajectory_y b ! i / AU P, trajectory_z b ! i / AU P])
      [0..<length (trajectory_x b)] = map (in_au P) (samples_of b)"
    using assms by (intro nth_equalityI) (simp_all add: samples_of_def in_au_def)
  then show ?thesis by (simp add: trajectory_au_def)
qed

lemma samples_of_newest:
  assumes "length ys = length xs" "length zs = length xs"
  shows "zip (newest c (xs @ map fst ps))
           (zip (newest c (ys @ map (\<lambda>p. fst (snd p)) ps)) (newest c (zs @ map (\<lambda>p. snd (snd p)) ps))) =
         newest c (zip xs (zip ys zs) @ ps)"
proof -
  have "zip (xs @ map fst ps) (zip (ys @ map (\<lambda>p. fst (snd p)) ps) (zs @ map (\<lambda>p. snd (snd p)) ps)) =
      zip xs (zip ys zs) @ ps"
    using assms by (simp add: zip_projections)
  then show ?thesis
    using assms by (simp add: newest_def drop_zip [symmetric])
qed

text \<open>
  C5. For every body within its capacity and every sequence of pushes, the buffer after
  the pushes is no longer than the capacity and holds the newest samples of the old
  buffer followed by the pushed ones, in insertion order, in each of the three vectors;
  the query lists them oldest first, each as \<open>x / AU, y / AU, z / AU\<close>. The theorem holds
  for every sequence, so after each push. The query is a function of the body and returns
  a list: it has no buffer to return.
\<close>

theorem trajectory_buffer_bounded:
  assumes "within_capacity b"
  shows "let c = nat (trajectory_max_points b); b' = foldl push b ps in
     length (trajectory_x b') \<le> c \<and> length (trajectory_y b') \<le> c \<and>
     length (trajectory_z b') \<le> c \<and>
     trajectory_max_points b' = trajectory_max_points b \<and>
     trajectory_x b' = newest c (trajectory_x b @ map fst ps) \<and>
     trajectory_y b' = newest c (trajectory_y b @ map (\<lambda>p. fst (snd p)) ps) \<and>
     trajectory_z b' = newest c (trajectory_z b @ map (\<lambda>p. snd (snd p)) ps) \<and>
     samples_of b' = newest c (samples_of b @ ps) \<and>
     trajectory_au P b' = concat (map (in_au P) (newest c (samples_of b @ ps)))"
proof -
  note f = foldl_push_newest [OF assms, of ps]
  have l: "length (trajectory_y b) = length (trajectory_x b)"
    "length (trajectory_z b) = length (trajectory_x b)"
    using assms by (simp_all add: within_capacity_def)
  have s: "samples_of (foldl push b ps) =
      newest (nat (trajectory_max_points b)) (samples_of b @ ps)"
    using f samples_of_newest [OF l] by (simp add: samples_of_def)
  have w: "within_capacity (foldl push b ps)" using f by simp
  have "trajectory_au P (foldl push b ps) = concat (map (in_au P) (samples_of (foldl push b ps)))"
    by (rule trajectory_au_samples) (use w in \<open>simp_all add: within_capacity_def\<close>)
  with s w f show ?thesis
    by (simp add: Let_def within_capacity_def)
qed

theorem trajectory_buffer_bounded_witness:
  "within_capacity heavy \<and>
   trajectory_max_points heavy = 2 \<and>
   trajectory_x (foldl push heavy [(1, 10, 100), (2, 20, 200), (3, 30, 300)]) = [2, 3] \<and>
   trajectory_y (foldl push heavy [(1, 10, 100), (2, 20, 200), (3, 30, 300)]) = [20, 30] \<and>
   trajectory_z (foldl push heavy [(1, 10, 100), (2, 20, 200), (3, 30, 300)]) = [200, 300] \<and>
   trajectory_au real_arith (foldl push heavy [(1, 10, 100), (2, 20, 200), (3, 30, 300)]) =
     [2 / AU real_arith, 20 / AU real_arith, 200 / AU real_arith,
      3 / AU real_arith, 30 / AU real_arith, 300 / AU real_arith]"
proof -
  have w: "within_capacity heavy"
    by (simp add: within_capacity_def heavy_def CelestialBody0_def)
  show ?thesis
    using w trajectory_buffer_bounded [OF w, of "[(1, 10, 100), (2, 20, 200), (3, 30, 300)]" real_arith]
    by (simp add: Let_def newest_def samples_of_def in_au_def heavy_def CelestialBody0_def)
qed

section \<open>The two position queries\<close>

lemma length_concat_triples:
  "length (concat (map (\<lambda>a. [f a, g a, h a]) vs)) = 3 * length vs"
  by (induction vs) simp_all

lemma nth_concat_triples:
  assumes "m < length vs"
  shows "concat (map (\<lambda>a. [f a, g a, h a]) vs) ! (3 * m) = f (vs ! m)"
    and "concat (map (\<lambda>a. [f a, g a, h a]) vs) ! (3 * m + 1) = g (vs ! m)"
    and "concat (map (\<lambda>a. [f a, g a, h a]) vs) ! (3 * m + 2) = h (vs ! m)"
  using assms
proof (induction vs arbitrary: m)
  case Nil
  { case 1 then show ?case by simp }
  { case 2 then show ?case by simp }
  { case 3 then show ?case by simp }
next
  case (Cons v vs)
  { case 1 then show ?case using Cons.IH(1) [of "m - 1"] by (cases m) simp_all }
  { case 2 then show ?case using Cons.IH(2) [of "m - 1"] by (cases m) simp_all }
  { case 3 then show ?case using Cons.IH(3) [of "m - 1"] by (cases m) simp_all }
qed

lemma length_trajectory_au: "length (trajectory_au P b) = 3 * length (trajectory_x b)"
  using length_concat_triples [of "\<lambda>i. trajectory_x b ! i / AU P" _ _ "[0..<length (trajectory_x b)]"]
  by (simp add: trajectory_au_def)

lemma nth_trajectory_au:
  assumes "m < length (trajectory_x b)"
  shows "trajectory_au P b ! (3 * m) = trajectory_x b ! m / AU P"
    and "trajectory_au P b ! (3 * m + 1) = trajectory_y b ! m / AU P"
    and "trajectory_au P b ! (3 * m + 2) = trajectory_z b ! m / AU P"
  using assms
    nth_concat_triples [of m "[0..<length (trajectory_x b)]" "\<lambda>i. trajectory_x b ! i / AU P"
      "\<lambda>i. trajectory_y b ! i / AU P" "\<lambda>i. trajectory_z b ! i / AU P"]
  by (simp_all add: trajectory_au_def)

lemma nth_get_positions:
  assumes "k < length (bodies s)"
  shows "get_positions s ! (3 * k) = x (bodies s ! k)"
    and "get_positions s ! (3 * k + 1) = y (bodies s ! k)"
    and "get_positions s ! (3 * k + 2) = z (bodies s ! k)"
  using nth_concat_triples [OF assms, of x y z]
  by (simp_all add: get_positions_def)

lemma length_get_positions: "length (get_positions s) = 3 * length (bodies s)"
  by (simp add: get_positions_def length_concat_triples)

text \<open>The sample that \<^verbatim>\<open>add_trajectory_point\<close> has just recorded is the last of the buffer.\<close>

lemma samples_of_add_trajectory_point:
  assumes "0 < trajectory_max_points b" "trajectory_max_points b < 2 ^ 31"
    and "length (trajectory_y b) = length (trajectory_x b)"
    and "length (trajectory_z b) = length (trajectory_x b)"
  shows "\<exists>older. samples_of (add_trajectory_point b) = older @ [position b]"
    and "length (trajectory_y (add_trajectory_point b)) = length (trajectory_x (add_trajectory_point b))"
    and "length (trajectory_z (add_trajectory_point b)) = length (trajectory_x (add_trajectory_point b))"
proof -
  have full: "samples_of (b\<lparr>trajectory_x := trajectory_x b @ [x b],
      trajectory_y := trajectory_y b @ [y b], trajectory_z := trajectory_z b @ [z b]\<rparr>) =
      samples_of b @ [position b]"
    using assms(3,4) by (simp add: samples_of_def position_def)
  show "\<exists>older. samples_of (add_trajectory_point b) = older @ [position b]"
  proof (cases "size_t_of_int (trajectory_max_points b) < length (trajectory_x b @ [x b])")
    case False
    then show ?thesis
      using assms(3,4) by (simp add: add_trajectory_point_def Let_def samples_of_def position_def)
  next
    case True
    then have "trajectory_x b \<noteq> []"
      using assms(1,2) by (auto simp: size_t_of_int_nat)
    then have "trajectory_y b \<noteq> []" "trajectory_z b \<noteq> []"
      using assms(3,4) by auto
    with True \<open>trajectory_x b \<noteq> []\<close> show ?thesis
      using assms(3,4)
      by (simp add: add_trajectory_point_def Let_def samples_of_def position_def)
  qed
  show "length (trajectory_y (add_trajectory_point b)) = length (trajectory_x (add_trajectory_point b))"
    "length (trajectory_z (add_trajectory_point b)) = length (trajectory_x (add_trajectory_point b))"
    using assms(3,4) by (simp_all add: add_trajectory_point_def Let_def)
qed

lemma newest_sample_in_au:
  assumes "0 < trajectory_max_points b" "trajectory_max_points b < 2 ^ 31"
    and "length (trajectory_y b) = length (trajectory_x b)"
    and "length (trajectory_z b) = length (trajectory_x b)"
  shows "drop (length (trajectory_au P (add_trajectory_point b)) - 3)
           (trajectory_au P (add_trajectory_point b)) = [x b / AU P, y b / AU P, z b / AU P]"
proof -
  note s = samples_of_add_trajectory_point [OF assms]
  obtain older where o: "samples_of (add_trajectory_point b) = older @ [position b]"
    using s(1) by blast
  have "trajectory_au P (add_trajectory_point b) =
      concat (map (in_au P) older) @ [x b / AU P, y b / AU P, z b / AU P]"
    by (simp add: trajectory_au_samples [OF s(2,3)] o in_au_def position_def)
  then show ?thesis by simp
qed

text \<open>
  C10. For every body \<open>k\<close> of the store, \<^verbatim>\<open>get_trajectory\<close> returns three numbers per
  buffered sample, oldest first, each coordinate divided by \<^verbatim>\<open>AU\<close>, and
  \<^verbatim>\<open>get_positions\<close> returns the coordinates of body \<open>k\<close> as they are (metres) at
  \<open>3 k\<close>, \<open>3 k + 1\<close>, \<open>3 k + 2\<close>. So right after a sample is recorded, the last three
  numbers of the trajectory query are the three numbers of the positions query, each
  divided by \<^verbatim>\<open>AU\<close>.
\<close>

theorem trajectory_au_positions_metres:
  assumes "k < length (bodies s)"
  shows "let b = bodies s ! k; t = get_trajectory P s (int k); p = get_positions s in
     length t = 3 * length (trajectory_x b) \<and>
     (\<forall>m<length (trajectory_x b).
        t ! (3 * m) = trajectory_x b ! m / AU P \<and>
        t ! (3 * m + 1) = trajectory_y b ! m / AU P \<and>
        t ! (3 * m + 2) = trajectory_z b ! m / AU P) \<and>
     length p = 3 * length (bodies s) \<and>
     p ! (3 * k) = x b \<and> p ! (3 * k + 1) = y b \<and> p ! (3 * k + 2) = z b \<and>
     (0 < trajectory_max_points b \<and> trajectory_max_points b < 2 ^ 31 \<and>
      length (trajectory_y b) = length (trajectory_x b) \<and>
      length (trajectory_z b) = length (trajectory_x b) \<longrightarrow>
        (let s' = record_trajectories s; t' = get_trajectory P s' (int k);
             p' = get_positions s'
         in drop (length t' - 3) t' =
              [p' ! (3 * k) / AU P, p' ! (3 * k + 1) / AU P, p' ! (3 * k + 2) / AU P]))"
proof -
  have t: "get_trajectory P s (int k) = trajectory_au P (bodies s ! k)"
    using assms by (simp add: get_trajectory_def)
  have k': "k < length (bodies (record_trajectories s))"
    using assms by (simp add: record_trajectories_def)
  have t': "get_trajectory P (record_trajectories s) (int k) =
      trajectory_au P (add_trajectory_point (bodies s ! k))"
    using assms by (simp add: get_trajectory_def record_trajectories_def)
  have p': "get_positions (record_trajectories s) ! (3 * k) = x (bodies s ! k)"
    "get_positions (record_trajectories s) ! (3 * k + 1) = y (bodies s ! k)"
    "get_positions (record_trajectories s) ! (3 * k + 2) = z (bodies s ! k)"
    using nth_get_positions [OF k'] assms
    by (simp_all add: record_trajectories_def add_trajectory_point_def Let_def)
  let ?b = "bodies s ! k"
  have A: "length (trajectory_au P ?b) = 3 * length (trajectory_x ?b)"
    by (rule length_trajectory_au)
  have B: "\<forall>m<length (trajectory_x ?b).
      trajectory_au P ?b ! (3 * m) = trajectory_x ?b ! m / AU P \<and>
      trajectory_au P ?b ! (3 * m + 1) = trajectory_y ?b ! m / AU P \<and>
      trajectory_au P ?b ! (3 * m + 2) = trajectory_z ?b ! m / AU P"
    using nth_trajectory_au [of _ ?b P] by blast
  have C: "length (get_positions s) = 3 * length (bodies s)"
    by (rule length_get_positions)
  note D = nth_get_positions [OF assms]
  have E: "0 < trajectory_max_points ?b \<and> trajectory_max_points ?b < 2 ^ 31 \<and>
      length (trajectory_y ?b) = length (trajectory_x ?b) \<and>
      length (trajectory_z ?b) = length (trajectory_x ?b) \<longrightarrow>
      drop (length (trajectory_au P (add_trajectory_point ?b)) - 3)
        (trajectory_au P (add_trajectory_point ?b)) = [x ?b / AU P, y ?b / AU P, z ?b / AU P]"
    using newest_sample_in_au [of ?b P] by blast
  show ?thesis
    unfolding Let_def t t' p'
    by (intro conjI A B C D E)
qed

theorem trajectory_au_positions_metres_witness:
  "1 < length (bodies two_bodies) \<and>
   0 < trajectory_max_points (bodies two_bodies ! 1) \<and>
   trajectory_max_points (bodies two_bodies ! 1) < 2 ^ 31 \<and>
   length (trajectory_y (bodies two_bodies ! 1)) = length (trajectory_x (bodies two_bodies ! 1)) \<and>
   length (trajectory_z (bodies two_bodies ! 1)) = length (trajectory_x (bodies two_bodies ! 1)) \<and>
   get_positions two_bodies ! 3 = 3 \<and> get_positions two_bodies ! 4 = 4 \<and>
   get_positions two_bodies ! 5 = 0 \<and>
   drop (length (get_trajectory real_arith (record_trajectories two_bodies) 1) - 3)
     (get_trajectory real_arith (record_trajectories two_bodies) 1) =
     [3 / AU real_arith, 4 / AU real_arith, 0 / AU real_arith]"
proof -
  have k: "1 < length (bodies two_bodies)"
    by (simp add: two_bodies_def SolarSystem0_def)
  have b: "bodies two_bodies ! 1 = light"
    by (simp add: two_bodies_def SolarSystem0_def)
  have c: "trajectory_max_points light = 2"
    "length (trajectory_y light) = length (trajectory_x light)"
    "length (trajectory_z light) = length (trajectory_x light)"
    "x light = 3" "y light = 4" "z light = 0"
    by (simp_all add: light_def CelestialBody0_def)
  have p': "get_positions (record_trajectories two_bodies) ! (3 * 1) = 3"
    "get_positions (record_trajectories two_bodies) ! (3 * 1 + 1) = 4"
    "get_positions (record_trajectories two_bodies) ! (3 * 1 + 2) = 0"
    by (simp_all add: get_positions_def record_trajectories_def two_bodies_def SolarSystem0_def
        add_trajectory_point_def Let_def c)
  show ?thesis
    using trajectory_au_positions_metres [OF k, of real_arith] k
    unfolding Let_def b p'
    by (simp add: c)
qed

section \<open>The batch run\<close>

lemma samples_Suc:
  "samples P dt s k (Suc n) =
     samples P dt s k n @
       (if n mod 10 = 0 then [position (bodies ((step P dt ^^ Suc n) s) ! k)] else [])"
  by (simp add: samples_def sample_steps_def)

lemma simulate_iteration_clock [simp]:
  "simulation_time (simulate_iteration P dt s i) = simulation_time s + dt"
  "step_count (simulate_iteration P dt s i) = step_count s + 1"
  "length (bodies (simulate_iteration P dt s i)) = length (bodies s)"
  by (simp_all add: simulate_iteration_def record_trajectories_def step_def Let_def)

lemma simulate_loop_clock:
  "simulation_time (simulate_loop P dt n s) = ((\<lambda>t. t + dt) ^^ n) (simulation_time s)"
  "step_count (simulate_loop P dt n s) = step_count s + of_nat n"
  "length (bodies (simulate_loop P dt n s)) = length (bodies s)"
  by (induction n) (simp_all add: simulate_loop_Suc)

lemma clear_trajectory_add_trajectory_point [simp]:
  "clear_trajectory (add_trajectory_point b) = clear_trajectory b"
  by (simp add: clear_trajectory_def add_trajectory_point_def Let_def)

lemma configuration_record_trajectories [simp]:
  "configuration (record_trajectories s) = configuration s"
  by (simp add: configuration_def record_trajectories_def)

lemma configuration_simulate_iteration:
  "configuration (simulate_iteration P dt s i) = configuration (step P dt s)"
  by (simp add: simulate_iteration_def Let_def)

lemma configuration_simulate_loop:
  "configuration (simulate_loop P dt n s) = configuration ((step P dt ^^ n) s)"
proof (induction n)
  case 0
  show ?case by simp
next
  case (Suc n)
  have "configuration (step P dt (simulate_loop P dt n s)) =
      configuration (step P dt ((step P dt ^^ n) s))"
    by (rule configuration_step) (rule Suc)
  then show ?case
    by (simp add: simulate_loop_Suc configuration_simulate_iteration)
qed

lemma position_clear_trajectory: "position (clear_trajectory b) = position b"
  by (simp add: position_def clear_trajectory_def)

lemma configuration_position:
  assumes "configuration s1 = configuration s2" "k < length (bodies s1)"
  shows "position (bodies s1 ! k) = position (bodies s2 ! k)"
  using configuration_nth(2) [OF assms] position_clear_trajectory [of "bodies s1 ! k"]
    position_clear_trajectory [of "bodies s2 ! k"]
  by simp

lemma step_history:
  assumes "k < length (bodies s)"
  shows "history (bodies (step P dt s) ! k) = history (bodies s ! k)"
    and "trajectory_max_points (bodies (step P dt s) ! k) = trajectory_max_points (bodies s ! k)"
  using assms
  by (simp_all add: nth_bodies_step history_def update_velocity_def set_acc_def
      update_position_def store_old_def)

lemma add_trajectory_point_cong:
  assumes "history b = history c" "trajectory_max_points b = trajectory_max_points c"
    and "position b = position c"
  shows "history (add_trajectory_point b) = history (add_trajectory_point c)"
  using assms by (simp add: history_def position_def add_trajectory_point_def Let_def)

lemma trajectory_max_points_add [simp]:
  "trajectory_max_points (add_trajectory_point b) = trajectory_max_points b"
  by (simp add: add_trajectory_point_def Let_def)

lemma trajectory_max_points_push [simp]:
  "trajectory_max_points (push b p) = trajectory_max_points b"
  by (simp add: push_def)

lemma trajectory_max_points_foldl_push [simp]:
  "trajectory_max_points (foldl push b ps) = trajectory_max_points b"
  by (induction ps arbitrary: b) simp_all

lemma history_push:
  assumes "history b = history c" "trajectory_max_points b = trajectory_max_points c"
  shows "history (add_trajectory_point b) = history (push c (position b))"
  unfolding push_def
  by (rule add_trajectory_point_cong) (use assms in \<open>simp_all add: history_def position_def\<close>)

lemma simulate_loop_history:
  assumes "k < length (bodies s)"
  shows "history (bodies (simulate_loop P dt n s) ! k) =
       history (foldl push (bodies s ! k) (samples P dt s k n)) \<and>
     trajectory_max_points (bodies (simulate_loop P dt n s) ! k) =
       trajectory_max_points (bodies s ! k)"
proof (induction n)
  case 0
  show ?case by (simp add: samples_def sample_steps_def)
next
  case (Suc n)
  let ?t = "simulate_loop P dt n s"
  have k: "k < length (bodies ?t)" "k < length (bodies (step P dt ?t))"
    using assms by (simp_all add: simulate_loop_clock)
  note h = step_history [OF k(1), of P dt]
  have "configuration (step P dt ?t) = configuration ((step P dt ^^ Suc n) s)"
    using configuration_step [OF configuration_simulate_loop, of P dt P dt n s] by simp
  then have p: "position (bodies (step P dt ?t) ! k) =
      position (bodies ((step P dt ^^ Suc n) s) ! k)"
    using k(2) by (rule configuration_position)
  show ?case
  proof (cases "n mod 10 = 0")
    case False
    then show ?thesis
      using Suc h by (simp add: simulate_loop_Suc simulate_iteration_def Let_def samples_Suc)
  next
    case True
    have "history (add_trajectory_point (bodies (step P dt ?t) ! k)) =
        history (push (foldl push (bodies s ! k) (samples P dt s k n))
          (position (bodies (step P dt ?t) ! k)))"
      by (rule history_push) (use Suc h in simp_all)
    with True show ?thesis
      using Suc h k
      by (simp add: simulate_loop_Suc simulate_iteration_def Let_def samples_Suc
          record_trajectories_def p)
  qed
qed

lemma real_to_int_floor:
  assumes "0 \<le> v" "v < 2 ^ 31"
  shows "real_to_int v = Some \<lfloor>v\<rfloor>"
proof -
  have "\<lfloor>v\<rfloor> < 2 ^ 31" using assms(2) by (simp add: floor_less_iff)
  moreover have "0 \<le> \<lfloor>v\<rfloor>" using assms(1) by simp
  ultimately show ?thesis using assms(1) by (simp add: real_to_int_def)
qed

lemma real_to_int_negative:
  assumes "v < 0" "- (2 ^ 31) \<le> v"
  shows "real_to_int v = Some (- \<lfloor>- v\<rfloor>)" and "nat (- \<lfloor>- v\<rfloor>) = 0"
proof -
  define f where "f = \<lfloor>- v\<rfloor>"
  have a: "0 \<le> f" using assms(1) by (simp add: f_def)
  have "- v < 2 ^ 31 + 1" using assms(2) by linarith
  then have b: "f \<le> 2147483648" by (simp add: f_def floor_le_iff)
  have "- 2147483648 \<le> - f" "- f < 2147483648"
    using a b by linarith+
  then show "real_to_int v = Some (- \<lfloor>- v\<rfloor>)"
    using assms(1) unfolding f_def [symmetric] real_to_int_def Let_def by simp
  show "nat (- \<lfloor>- v\<rfloor>) = 0" using a by (simp add: f_def)
qed

lemma clock_real: "((\<lambda>t. t + d) ^^ m) (t0::real) = t0 + real m * d"
  by (induction m) (simp_all add: algebra_simps)

lemma simulate_Some:
  assumes "to_int P (duration / dt) = Some steps"
  shows "simulate P duration dt s =
     Some ((simulate_loop P dt (nat steps) s)
       \<lparr>total_energy := calculate_total_energy P (bodies (simulate_loop P dt (nat steps) s))\<rparr>)"
  using assms by (simp add: simulate_def Let_def)

text \<open>
  C4, as the code has it. When \<^verbatim>\<open>static_cast<int>(duration / dt)\<close> is the \<^verbatim>\<open>int\<close>
  \<open>steps\<close>, \<^verbatim>\<open>simulate(duration, dt)\<close> returns after \<open>n = max 0 steps\<close> iterations: the
  step counter is \<open>n\<close> higher, \<open>dt\<close> has been added \<open>n\<close> times to the clock, the bodies
  are, but for their trajectory buffers, those of \<open>n\<close> calls of \<^verbatim>\<open>step(dt)\<close>; the buffer
  of every body has received one push in each iteration \<open>i = 0, 10, 20, ...\<close> (the stride
  is the literal 10), of the body's position after \<open>i + 1\<close> steps; and \<^verbatim>\<open>total_energy\<close>
  is the energy of the bodies reached. In exact arithmetic \<open>steps\<close> is
  \<open>floor (duration / dt)\<close> when the quotient is not negative and below \<open>2^31\<close>, and is not
  positive when the quotient is negative, so that no step runs; and the clock has
  advanced by \<open>n * dt\<close>.
\<close>

theorem simulate_steps_and_samples:
  fixes v w d t0 :: real
  shows
  "(to_int P (duration / dt) = Some steps \<longrightarrow>
      simulate P duration dt s \<noteq> None \<and>
      (let n = nat steps; s' = the (simulate P duration dt s) in
         step_count s' = step_count s + of_nat n \<and>
         simulation_time s' = ((\<lambda>t. t + dt) ^^ n) (simulation_time s) \<and>
         configuration s' = configuration ((step P dt ^^ n) s) \<and>
         length (bodies s') = length (bodies s) \<and>
         (\<forall>k<length (bodies s).
            history (bodies s' ! k) = history (foldl push (bodies s ! k) (samples P dt s k n))) \<and>
         total_energy s' = calculate_total_energy P (bodies s'))) \<and>
   (0 \<le> v \<and> v < 2 ^ 31 \<longrightarrow> to_int real_arith v = Some \<lfloor>v\<rfloor>) \<and>
   (w < 0 \<and> - (2 ^ 31) \<le> w \<longrightarrow> (\<exists>t\<le>0. to_int real_arith w = Some t)) \<and>
   ((\<lambda>t. t + d) ^^ m) t0 = t0 + real m * d"
proof (intro conjI impI)
  assume a: "to_int P (duration / dt) = Some steps"
  note s = simulate_Some [OF a, of s]
  show "simulate P duration dt s \<noteq> None" by (simp add: s)
  show "let n = nat steps; s' = the (simulate P duration dt s) in
         step_count s' = step_count s + of_nat n \<and>
         simulation_time s' = ((\<lambda>t. t + dt) ^^ n) (simulation_time s) \<and>
         configuration s' = configuration ((step P dt ^^ n) s) \<and>
         length (bodies s') = length (bodies s) \<and>
         (\<forall>k<length (bodies s).
            history (bodies s' ! k) = history (foldl push (bodies s ! k) (samples P dt s k n))) \<and>
         total_energy s' = calculate_total_energy P (bodies s')"
    using configuration_simulate_loop [of P dt "nat steps" s]
    by (simp add: s Let_def simulate_loop_clock simulate_loop_history configuration_def)
next
  assume "0 \<le> v \<and> v < 2 ^ 31"
  then show "to_int real_arith v = Some \<lfloor>v\<rfloor>"
    by (simp add: real_arith_def real_to_int_floor)
next
  assume "w < 0 \<and> - (2 ^ 31) \<le> w"
  then show "\<exists>t\<le>0. to_int real_arith w = Some t"
    using real_to_int_negative [of w] by (auto simp: real_arith_def)
next
  show "((\<lambda>t. t + d) ^^ m) t0 = t0 + real m * d" by (rule clock_real)
qed

lemma sample_steps_12: "sample_steps 12 = [0, 10]"
  by code_simp

lemma sample_steps_3: "sample_steps 3 = [0]"
  by code_simp

theorem simulate_steps_and_samples_witness:
  "to_int real_arith (25 / 2) = Some 12 \<and>
   simulate real_arith 25 2 two_bodies \<noteq> None \<and>
   step_count (the (simulate real_arith 25 2 two_bodies)) = 12 \<and>
   simulation_time (the (simulate real_arith 25 2 two_bodies)) = 24 \<and>
   length (bodies two_bodies) = 2 \<and>
   history (bodies (the (simulate real_arith 25 2 two_bodies)) ! 1) =
     history (foldl push light
       [position (bodies ((step real_arith 2 ^^ Suc 0) two_bodies) ! 1),
        position (bodies ((step real_arith 2 ^^ Suc 10) two_bodies) ! 1)]) \<and>
   (0 \<le> (25 / 2 :: real) \<and> (25 / 2 :: real) < 2 ^ 31) \<and> \<lfloor>25 / 2 :: real\<rfloor> = 12 \<and>
   ((- 1 / 2 :: real) < 0 \<and> - (2 ^ 31) \<le> (- 1 / 2 :: real)) \<and>
   to_int real_arith (- 1 / 2) = Some 0 \<and>
   (\<exists>t\<le>0. to_int real_arith (- 1 / 2) = Some t)"
proof -
  have a: "to_int real_arith (25 / 2) = Some 12"
    by (simp add: real_arith_def real_to_int_def)
  have b: "to_int real_arith (- 1 / 2) = Some 0"
    by (simp add: real_arith_def real_to_int_def)
  have c: "bodies two_bodies = [heavy, light]" "simulation_time two_bodies = 0"
    "step_count two_bodies = 0"
    by (simp_all add: two_bodies_def SolarSystem0_def)
  have smp: "samples real_arith 2 two_bodies 1 12 =
      [position (bodies ((step real_arith 2 ^^ Suc 0) two_bodies) ! 1),
       position (bodies ((step real_arith 2 ^^ Suc 10) two_bodies) ! 1)]"
    by (simp only: samples_def sample_steps_12 list.map)
  note T = simulate_steps_and_samples
      [where P = real_arith and duration = 25 and dt = 2 and steps = 12 and s = two_bodies
         and v = "25 / 2" and w = "- 1 / 2" and d = 2 and m = 12 and ?t0.0 = 0]
  from T a have r: "simulate real_arith 25 2 two_bodies \<noteq> None"
    and n: "step_count (the (simulate real_arith 25 2 two_bodies)) = step_count two_bodies + of_nat (nat 12)"
    and t: "simulation_time (the (simulate real_arith 25 2 two_bodies)) =
        ((\<lambda>t. t + 2) ^^ nat 12) (simulation_time two_bodies)"
    and h: "\<forall>k<length (bodies two_bodies).
        history (bodies (the (simulate real_arith 25 2 two_bodies)) ! k) =
        history (foldl push (bodies two_bodies ! k) (samples real_arith 2 two_bodies k (nat 12)))"
    and f: "((\<lambda>t. t + 2) ^^ 12) (0::real) = 0 + real 12 * 2"
    unfolding Let_def by blast+
  from T have g: "\<exists>t\<le>0. to_int real_arith (- 1 / 2) = Some t"
    by simp
  have h1: "history (bodies (the (simulate real_arith 25 2 two_bodies)) ! 1) =
      history (foldl push light (samples real_arith 2 two_bodies 1 12))"
    using h [rule_format, of 1] by (simp add: c)
  show ?thesis
    using a b r n t f g unfolding h1 smp by (simp add: c)
qed

text \<open>
  The claim as stated fails twice. With \<open>duration = - 1\<close> and \<open>dt = 2\<close> the floor of
  the quotient is \<open>- 1\<close> and the step counter stays, on a freshly constructed system
  as on the two-body system. With
  \<open>duration = 3\<close> and \<open>dt = 1\<close> three steps run and a buffer of capacity 2 holds one
  sample: \<^verbatim>\<open>simulate\<close> has no stride argument, and records in the first of the three
  iterations only.
\<close>

theorem simulate_counterexample:
  "(0::real) < 2 \<and> \<lfloor>- 1 / 2 :: real\<rfloor> = - 1 \<and>
   simulate real_arith (- 1) 2 SolarSystem0 \<noteq> None \<and>
   step_count (the (simulate real_arith (- 1) 2 SolarSystem0)) =
     step_count (SolarSystem0 :: real SolarSystem) \<and>
   simulate real_arith (- 1) 2 two_bodies \<noteq> None \<and>
   step_count (the (simulate real_arith (- 1) 2 two_bodies)) = step_count two_bodies \<and>
   step_count two_bodies + (- 1) \<noteq> step_count two_bodies \<and>
   \<lfloor>3 / 1 :: real\<rfloor> = 3 \<and>
   trajectory_max_points (bodies two_bodies ! 0) = 2 \<and>
   step_count (the (simulate real_arith 3 1 two_bodies)) = step_count two_bodies + 3 \<and>
   length (trajectory_x (bodies (the (simulate real_arith 3 1 two_bodies)) ! 0)) = 1"
proof -
  have a: "to_int real_arith (- 1 / 2) = Some 0" "to_int real_arith (3 / 1) = Some 3"
    by (simp_all add: real_arith_def real_to_int_def)
  have c: "bodies two_bodies = [heavy, light]"
    by (simp add: two_bodies_def SolarSystem0_def)
  have h: "history (bodies (simulate_loop real_arith 1 3 two_bodies) ! 0) =
      history (foldl push heavy (samples real_arith 1 two_bodies 0 3))"
    using simulate_loop_history [of 0 two_bodies real_arith 1 3] by (simp add: c)
  have "length (trajectory_x (bodies (simulate_loop real_arith 1 3 two_bodies) ! 0)) = 1"
    using arg_cong [OF h, of "\<lambda>t. length (fst t)"]
    by (simp add: history_def samples_def sample_steps_3 push_def add_trajectory_point_def
        Let_def heavy_def CelestialBody0_def size_t_of_int_def)
  then show ?thesis
    using simulate_Some [OF a(1), of two_bodies] simulate_Some [OF a(2), of two_bodies]
      simulate_Some [OF a(1), of SolarSystem0]
    by (simp add: simulate_loop_clock c heavy_def)
qed

end
